theory Spec2Isabelle
  imports Main "HOL-Library.Sublist" "HOL-Library.AList"
begin

section \<open>JavaScript values and string helpers\<close>

text \<open>
  The handlers of \<^verbatim>\<open>src/utils/botHandler.ts\<close> and of the blocks under
  \<^verbatim>\<open>src/blocks\<close> test optional fields by JavaScript truthiness. A field that may be
  \<^verbatim>\<open>undefined\<close> is an \<open>option\<close>; an optional string is truthy when it is present and
  not the empty string.
\<close>

definition truthy_str :: "string option \<Rightarrow> bool" where
  "truthy_str s = (case s of None \<Rightarrow> False | Some x \<Rightarrow> x \<noteq> [])"

text \<open>
  The \<^verbatim>\<open>value\<close> field of an activity is arbitrary decoded JSON. Its truthiness follows
  JavaScript: \<^verbatim>\<open>null\<close>, \<^verbatim>\<open>false\<close>, \<^verbatim>\<open>0\<close> and the empty string are falsy, every array and
  object is truthy. Numbers are kept as integers: of the JSON numbers only zero is falsy.
\<close>

datatype json =
    JNull
  | JBool bool
  | JNum int
  | JStr string
  | JArr "json list"
  | JObj "(string \<times> json) list"

fun truthy_json :: "json \<Rightarrow> bool" where
  "truthy_json JNull = False"
| "truthy_json (JBool b) = b"
| "truthy_json (JNum n) = (n \<noteq> 0)"
| "truthy_json (JStr s) = (s \<noteq> [])"
| "truthy_json (JArr xs) = True"
| "truthy_json (JObj kvs) = True"

definition truthy_val :: "json option \<Rightarrow> bool" where
  "truthy_val v = (case v of None \<Rightarrow> False | Some j \<Rightarrow> truthy_json j)"

text \<open>\<^verbatim>\<open>String.prototype.includes\<close>: the argument occurs as a contiguous substring.\<close>

fun includes_str :: "string \<Rightarrow> string \<Rightarrow> bool" where
  "includes_str [] t = (t = [])"
| "includes_str (c # cs) t = (prefix t (c # cs) \<or> includes_str cs t)"

text \<open>
  \<^verbatim>\<open>key.split("|")\<close>: the segments between the separators. A string without a
  separator is its own single segment, so the result is never empty and the first
  branch of the \<open>case\<close> below is never taken (\<open>split_on_nonempty\<close>).
\<close>

fun split_on :: "char \<Rightarrow> string \<Rightarrow> string list" where
  "split_on d [] = [[]]"
| "split_on d (c # cs) =
     (if c = d then [] # split_on d cs
      else (case split_on d cs of
              [] \<Rightarrow> [[c]]
            | seg # segs \<Rightarrow> (c # seg) # segs))"

text \<open>Indexing a JavaScript array: out of range is \<^verbatim>\<open>undefined\<close>.\<close>

definition js_index :: "'a list \<Rightarrow> nat \<Rightarrow> 'a option" where
  "js_index xs i = (if i < length xs then Some (xs ! i) else None)"

text \<open>
  The regular expression \<^verbatim>\<open>/;messageid=(\d+)/\<close> of \<^verbatim>\<open>handleMessageActivity\<close>: the leftmost
  position where the literal \<^verbatim>\<open>;messageid=\<close> is followed by at least one digit; the
  capture group is the longest run of digits there.
\<close>

definition is_digit :: "char \<Rightarrow> bool" where
  "is_digit c = (c \<in> set ''0123456789'')"

fun match_messageid :: "string \<Rightarrow> string option" where
  "match_messageid [] = None"
| "match_messageid (c # cs) =
     (if prefix '';messageid='' (c # cs) \<and> drop 11 (c # cs) \<noteq> [] \<and> is_digit (hd (drop 11 (c # cs)))
      then Some (takeWhile is_digit (drop 11 (c # cs)))
      else match_messageid cs)"

text \<open>\<^verbatim>\<open>botId.replace(/^28:/, "")\<close>: a leading \<^verbatim>\<open>28:\<close> is removed, once.\<close>

definition strip_bot_prefix :: "string \<Rightarrow> string" where
  "strip_bot_prefix s = (if prefix ''28:'' s then drop 3 s else s)"

section \<open>The key-value store and the block registry of the host\<close>

text \<open>
  The host SDK offers two stores: \<^verbatim>\<open>kv.app\<close>, shared by all blocks, and \<^verbatim>\<open>kv.block\<close>, local
  to one block. A store holds at most one value per key: \<^verbatim>\<open>set\<close> replaces the value of a
  key that is present and adds the key otherwise, \<^verbatim>\<open>get\<close> gives \<^verbatim>\<open>undefined\<close> for a key
  that is absent, and \<^verbatim>\<open>list\<close> gives the pairs whose key starts with the prefix. A store is
  an association list, so that listing has an order; no theorem below depends on
  which order it is.
\<close>

type_synonym 'v kv = "(string \<times> 'v) list"

definition kv_set :: "string \<Rightarrow> 'v \<Rightarrow> 'v kv \<Rightarrow> 'v kv" where
  "kv_set k v s = AList.update k v s"

definition kv_get :: "'v kv \<Rightarrow> string \<Rightarrow> 'v option" where
  "kv_get s k = map_of s k"

definition kv_list :: "'v kv \<Rightarrow> string \<Rightarrow> 'v kv" where
  "kv_list s keyPrefix = filter (\<lambda>p. prefix keyPrefix (fst p)) s"

text \<open>
  \<^verbatim>\<open>blocks.list({ typeIds })\<close> enumerates the blocks that exist now, by type. The types are
  the keys of the dictionary in \<^verbatim>\<open>blocks/index.ts\<close>: \<^verbatim>\<open>sendMessage\<close>, \<^verbatim>\<open>threadSubscription\<close>
  (the block \<^verbatim>\<open>subscribeToReplies\<close>) and \<^verbatim>\<open>mentionsSubscription\<close>. Of a block's
  configuration only \<^verbatim>\<open>config.channelId\<close> is read.
\<close>

record block_info =
  block_id :: string
  block_typeId :: string
  block_channelId :: "string option"

definition blocks_list :: "block_info list \<Rightarrow> string list \<Rightarrow> block_info list" where
  "blocks_list registry typeIds = filter (\<lambda>b. block_typeId b \<in> set typeIds) registry"

record sys_state =
  appKv :: "bool kv"
  blockKv :: "string \<Rightarrow> string kv"

section \<open>Activities and internal messages\<close>

datatype activity_type = Message | MessageReaction | ConversationUpdate | Invoke | OtherType string

record channel_account =
  acc_id :: "string option"
  acc_name :: "string option"
  acc_aadObjectId :: "string option"

record entity =
  ent_type :: string
  ent_mentioned_id :: "string option"

record reaction =
  reaction_type :: string

text \<open>
  The fields of a Bot Framework activity that the handlers read. \<open>a_conversation_id\<close> is
  \<^verbatim>\<open>activity.conversation?.id\<close>, \<open>a_teamsChannelId\<close> is
  \<^verbatim>\<open>activity.channelData?.teamsChannelId\<close>; \<open>a_entities\<close>, \<open>a_reactionsAdded\<close> and
  \<open>a_reactionsRemoved\<close> are the lists after the source's \<^verbatim>\<open>|| []\<close>.
\<close>

record activity =
  a_type :: activity_type
  a_id :: "string option"
  a_replyToId :: "string option"
  a_conversation_id :: "string option"
  a_from :: "channel_account option"
  a_text :: "string option"
  a_value :: "json option"
  a_name :: "string option"
  a_entities :: "entity list"
  a_teamsChannelId :: "string option"
  a_reactionsAdded :: "reaction list"
  a_reactionsRemoved :: "reaction list"
  a_timestamp :: "string option"
  a_attachments :: "json option"
  a_serviceUrl :: "string option"

text \<open>
  The body of a \<^verbatim>\<open>messaging.sendToBlocks\<close> call. The source builds one object literal per
  kind of message; a field that a literal does not set is \<open>None\<close> here.
  \<open>b_conversation\<close> is the id of the \<^verbatim>\<open>conversation\<close> object, \<open>b_teamsChannelId\<close> the
  \<^verbatim>\<open>teamsChannelId\<close> of \<^verbatim>\<open>channelData\<close>.
\<close>

record body =
  b_type :: string
  b_activity :: activity
  b_text :: "string option"
  b_from :: "channel_account option"
  b_replyToId :: "string option"
  b_activityId :: "string option"
  b_conversationId :: "string option"
  b_conversation :: "string option"
  b_teamsChannelId :: "string option"
  b_timestamp :: "string option"
  b_action :: "string option"
  b_reactionType :: "string option"
  b_actionId :: "string option"
  b_actionData :: "json option"

definition empty_body :: "string \<Rightarrow> activity \<Rightarrow> body" where
  "empty_body ty a =
     \<lparr> b_type = ty, b_activity = a, b_text = None, b_from = None, b_replyToId = None,
       b_activityId = None, b_conversationId = None, b_conversation = None,
       b_teamsChannelId = None, b_timestamp = None, b_action = None,
       b_reactionType = None, b_actionId = None, b_actionData = None \<rparr>"

record send =
  blockIds :: "string list"
  msg :: body

section \<open>The dispatcher: \<^verbatim>\<open>src/utils/botHandler.ts\<close>\<close>

text \<open>
  Each handler returns the \<^verbatim>\<open>messaging.sendToBlocks\<close> calls it makes, in order. Reading
  the stores and the registry has no effect on them, so they are arguments.
\<close>

subsection \<open>Looking up subscribers\<close>

text \<open>The template literal \<^verbatim>\<open>`events|${replyToId}|`\<close> and its sibling for replies.\<close>

definition key_prefix :: "string \<Rightarrow> string \<Rightarrow> string" where
  "key_prefix ns anchor = ns @ ''|'' @ anchor @ ''|''"

text \<open>The key \<^verbatim>\<open>`events|${result.activityId}|${input.block.id}`\<close> that a block registers.\<close>

definition composite_key :: "string \<Rightarrow> string \<Rightarrow> string \<Rightarrow> string" where
  "composite_key ns anchor blockId = ns @ ''|'' @ anchor @ ''|'' @ blockId"

text \<open>
  \<^verbatim>\<open>(await kv.app.list({ keyPrefix: prefix })).pairs.map(({ key }) => key.split("|")[2])\<close>
\<close>

definition subscribedBlockIds :: "bool kv \<Rightarrow> string \<Rightarrow> string option list" where
  "subscribedBlockIds ks keyPrefix =
     map (\<lambda>p. js_index (split_on CHR ''|'' (fst p)) 2) (kv_list ks keyPrefix)"

text \<open>
  \<^verbatim>\<open>subscribedBlockIds.filter((id) => existingBlockIds.has(id))\<close>: the set holds block
  ids, which are strings, so an \<^verbatim>\<open>undefined\<close> entry is never a member.
\<close>

fun validBlockIds :: "string option list \<Rightarrow> string list \<Rightarrow> string list" where
  "validBlockIds [] existing = []"
| "validBlockIds (None # ids) existing = validBlockIds ids existing"
| "validBlockIds (Some i # ids) existing =
     (if i \<in> set existing then i # validBlockIds ids existing else validBlockIds ids existing)"

definition existingBlockIds :: "block_info list \<Rightarrow> string \<Rightarrow> string list" where
  "existingBlockIds registry typeId = map block_id (blocks_list registry [typeId])"

subsection \<open>Message activities\<close>

text \<open>Lines 71 to 75: some mention entity whose mentioned id includes \<^verbatim>\<open>28:\<close>.\<close>

definition botMentioned :: "activity \<Rightarrow> bool" where
  "botMentioned a =
     (let mentions = filter (\<lambda>e. ent_type e = ''mention'') (a_entities a)
      in list_ex (\<lambda>m. case ent_mentioned_id m of
                         None \<Rightarrow> False
                       | Some i \<Rightarrow> includes_str i ''28:'') mentions)"

definition mention_body :: "activity \<Rightarrow> body" where
  "mention_body a =
     (empty_body ''mention'' a)
       \<lparr> b_text := a_text a, b_from := a_from a, b_conversation := a_conversation_id a,
         b_teamsChannelId := a_teamsChannelId a, b_timestamp := a_timestamp a \<rparr>"

text \<open>
  Lines 86 to 94: a mention block passes when its configured channel is falsy or is
  strictly equal to the channel of the activity.
\<close>

definition passes_channel_filter :: "string option \<Rightarrow> block_info \<Rightarrow> bool" where
  "passes_channel_filter mentionChannelId block =
     (\<not> truthy_str (block_channelId block) \<or> block_channelId block = mentionChannelId)"

text \<open>Lines 77 to 111: the branch taken when the bot is mentioned. It does not return.\<close>

definition mention_dispatch :: "block_info list \<Rightarrow> activity \<Rightarrow> send list" where
  "mention_dispatch registry a =
     (if botMentioned a then
        (let mentionBlocks = blocks_list registry [''mentionsSubscription'']
         in if length mentionBlocks > 0 then
              (let mentionChannelId = a_teamsChannelId a;
                   targetBlockIds =
                     map block_id (filter (passes_channel_filter mentionChannelId) mentionBlocks)
               in if length targetBlockIds > 0
                  then [\<lparr> blockIds = targetBlockIds, msg = mention_body a \<rparr>]
                  else [])
            else [])
      else [])"

text \<open>
  Lines 115 to 128: the reply target is the explicit \<^verbatim>\<open>replyToId\<close>; when that is falsy and
  both the conversation id and the activity id are truthy, the message id found in the
  conversation id replaces it, unless it is the id of the activity itself.
\<close>

definition derive_replyToId :: "activity \<Rightarrow> string option" where
  "derive_replyToId a =
     (case a_conversation_id a of
        None \<Rightarrow> a_replyToId a
      | Some conv \<Rightarrow>
          if \<not> truthy_str (a_replyToId a) \<and> conv \<noteq> [] \<and> truthy_str (a_id a) then
            (case match_messageid conv of
               None \<Rightarrow> a_replyToId a
             | Some messageId \<Rightarrow>
                 if Some messageId \<noteq> a_id a then Some messageId else a_replyToId a)
          else a_replyToId a)"

text \<open>Lines 132 to 134.\<close>

definition isFromBot :: "activity \<Rightarrow> string \<Rightarrow> bool" where
  "isFromBot a botId =
     (let botAppId = strip_bot_prefix botId
      in case a_from a of
           None \<Rightarrow> False
         | Some f \<Rightarrow>
             (case acc_id f of
                None \<Rightarrow> False
              | Some fromId \<Rightarrow> fromId \<noteq> [] \<and> includes_str fromId botAppId))"

definition submit_body :: "activity \<Rightarrow> string \<Rightarrow> body" where
  "submit_body a replyToId =
     (empty_body ''action'' a)
       \<lparr> b_actionId := (if truthy_str (a_name a) then a_name a else Some ''submit''),
         b_actionData := a_value a, b_from := a_from a, b_activityId := Some replyToId,
         b_conversationId := a_conversation_id a, b_timestamp := a_timestamp a \<rparr>"

definition reply_body :: "activity \<Rightarrow> string \<Rightarrow> string \<Rightarrow> body" where
  "reply_body a replyToId conversationId =
     (empty_body ''reply'' a)
       \<lparr> b_text := a_text a, b_from := a_from a, b_replyToId := Some replyToId,
         b_conversationId := Some conversationId, b_conversation := a_conversation_id a,
         b_teamsChannelId := a_teamsChannelId a, b_timestamp := a_timestamp a \<rparr>"

text \<open>
  Lines 130 to 219: nothing for a falsy reply target or a sender that is the bot; the
  events of the target message for a truthy \<^verbatim>\<open>value\<close>; the replies of the conversation
  otherwise.
\<close>

definition reply_dispatch :: "bool kv \<Rightarrow> block_info list \<Rightarrow> activity \<Rightarrow> string \<Rightarrow> send list" where
  "reply_dispatch ks registry a botId =
     (case derive_replyToId a of
        None \<Rightarrow> []
      | Some replyToId \<Rightarrow>
          if replyToId = [] then []
          else if isFromBot a botId then []
          else if truthy_val (a_value a) then
            (let subscribed = subscribedBlockIds ks (key_prefix ''events'' replyToId)
             in if length subscribed > 0 then
                  (let valid = validBlockIds subscribed (existingBlockIds registry ''sendMessage'')
                   in if length valid > 0
                      then [\<lparr> blockIds = valid, msg = submit_body a replyToId \<rparr>]
                      else [])
                else [])
          else
            (case a_conversation_id a of
               None \<Rightarrow> []
             | Some conversationId \<Rightarrow>
                 if conversationId = [] then []
                 else
                   (let subscribed = subscribedBlockIds ks (key_prefix ''replies'' conversationId)
                    in if length subscribed > 0 then
                         (let valid =
                            validBlockIds subscribed (existingBlockIds registry ''threadSubscription'')
                          in if length valid > 0
                             then [\<lparr> blockIds = valid,
                                     msg = reply_body a replyToId conversationId \<rparr>]
                             else [])
                       else [])))"

definition handleMessageActivity ::
  "bool kv \<Rightarrow> block_info list \<Rightarrow> activity \<Rightarrow> string \<Rightarrow> send list" where
  "handleMessageActivity ks registry a botId =
     mention_dispatch registry a @ reply_dispatch ks registry a botId"

subsection \<open>Reaction activities\<close>

definition reaction_body :: "activity \<Rightarrow> string \<Rightarrow> string \<Rightarrow> reaction \<Rightarrow> body" where
  "reaction_body a replyToId act r =
     (empty_body ''reaction'' a)
       \<lparr> b_action := Some act, b_reactionType := Some (reaction_type r), b_from := a_from a,
         b_activityId := Some replyToId, b_conversationId := a_conversation_id a,
         b_teamsChannelId := a_teamsChannelId a, b_timestamp := a_timestamp a \<rparr>"

text \<open>Lines 225 to 294: one call for each added reaction, then one for each removed one.\<close>

definition handleReactionActivity :: "bool kv \<Rightarrow> block_info list \<Rightarrow> activity \<Rightarrow> send list" where
  "handleReactionActivity ks registry a =
     (case a_replyToId a of
        None \<Rightarrow> []
      | Some replyToId \<Rightarrow>
          if replyToId = [] then []
          else
            (let subscribed = subscribedBlockIds ks (key_prefix ''events'' replyToId)
             in if length subscribed = 0 then []
                else
                  (let valid = validBlockIds subscribed (existingBlockIds registry ''sendMessage'')
                   in if length valid = 0 then []
                      else
                        map (\<lambda>r. \<lparr> blockIds = valid, msg = reaction_body a replyToId ''add'' r \<rparr>)
                          (a_reactionsAdded a)
                        @ map (\<lambda>r. \<lparr> blockIds = valid,
                                      msg = reaction_body a replyToId ''remove'' r \<rparr>)
                            (a_reactionsRemoved a))))"

subsection \<open>Invoke activities\<close>

definition invoke_body :: "activity \<Rightarrow> string \<Rightarrow> body" where
  "invoke_body a replyToId =
     (empty_body ''action'' a)
       \<lparr> b_actionId := a_name a,
         b_actionData := (if truthy_val (a_value a) then a_value a else Some (JObj [])),
         b_from := a_from a, b_activityId := Some replyToId,
         b_conversationId := a_conversation_id a, b_timestamp := a_timestamp a \<rparr>"

text \<open>Lines 299 to 347.\<close>

definition handleInvokeActivity :: "bool kv \<Rightarrow> block_info list \<Rightarrow> activity \<Rightarrow> send list" where
  "handleInvokeActivity ks registry a =
     (case a_replyToId a of
        None \<Rightarrow> []
      | Some replyToId \<Rightarrow>
          if replyToId = [] then []
          else
            (let subscribed = subscribedBlockIds ks (key_prefix ''events'' replyToId)
             in if length subscribed = 0 then []
                else
                  (let valid = validBlockIds subscribed (existingBlockIds registry ''sendMessage'')
                   in if length valid = 0 then []
                      else [\<lparr> blockIds = valid, msg = invoke_body a replyToId \<rparr>])))"

subsection \<open>Routing by activity type\<close>

text \<open>Lines 34 to 61: \<^verbatim>\<open>handleBotActivity\<close>; the application id is passed as the bot id.\<close>

definition handleBotActivity ::
  "bool kv \<Rightarrow> block_info list \<Rightarrow> activity \<Rightarrow> string \<Rightarrow> send list" where
  "handleBotActivity ks registry a appId =
     (case a_type a of
        Message \<Rightarrow> handleMessageActivity ks registry a appId
      | MessageReaction \<Rightarrow> handleReactionActivity ks registry a
      | ConversationUpdate \<Rightarrow> []
      | Invoke \<Rightarrow> handleInvokeActivity ks registry a
      | OtherType t \<Rightarrow> [])"

section \<open>The blocks: \<^verbatim>\<open>src/blocks\<close>\<close>

text \<open>
  An event handed to \<^verbatim>\<open>events.emit\<close>: the payload, and the options \<^verbatim>\<open>parentEventId\<close> and
  \<^verbatim>\<open>outputKey\<close> when the call gives them. The payload is one record for the three blocks;
  a field that a block does not set is \<open>None\<close>.
\<close>

record payload =
  p_type :: "string option"
  p_userId :: "string option"
  p_userName :: "string option"
  p_userAadObjectId :: "string option"
  p_activityId :: "string option"
  p_conversationId :: "string option"
  p_channelId :: "string option"
  p_serviceUrl :: "string option"
  p_timestamp :: "string option"
  p_text :: "string option"
  p_attachments :: "json option"
  p_from :: "channel_account option"
  p_reactionType :: "string option"
  p_action :: "string option"
  p_actionId :: "string option"
  p_actionData :: "json option"

definition empty_payload :: payload where
  "empty_payload =
     \<lparr> p_type = None, p_userId = None, p_userName = None, p_userAadObjectId = None,
       p_activityId = None, p_conversationId = None, p_channelId = None, p_serviceUrl = None,
       p_timestamp = None, p_text = None, p_attachments = None, p_from = None,
       p_reactionType = None, p_action = None, p_actionId = None, p_actionData = None \<rparr>"

record emitted =
  ev_parentEventId :: "string option"
  ev_outputKey :: "string option"
  ev_payload :: payload

datatype error = MissingContent | TransportFailure string

subsection \<open>\<^verbatim>\<open>sendMessage\<close>\<close>

text \<open>
  Lines 96 to 103 of \<^verbatim>\<open>sendMessage.ts\<close>: after the message is sent, the block stores the
  id of the triggering event under the id of the sent activity in its own store, and
  marks the key \<^verbatim>\<open>events|activityId|blockId\<close> in the shared store. Both writes are
  unconditional.
\<close>

definition sendMessage_register :: "sys_state \<Rightarrow> string \<Rightarrow> string \<Rightarrow> string \<Rightarrow> sys_state" where
  "sendMessage_register st blockId activityId eventId =
     st \<lparr> blockKv := (blockKv st)(blockId := kv_set activityId eventId (blockKv st blockId)),
          appKv := kv_set (composite_key ''events'' activityId blockId) True (appKv st) \<rparr>"

text \<open>
  Lines 53 to 111: \<^verbatim>\<open>onEvent\<close>. The token request and the call of the platform are outside
  the block; \<open>sent\<close> is what they give, an error or the ids of the sent activity and of its
  conversation, and \<open>now\<close> is the clock. The result is the new state and the emitted event.
\<close>

definition sendMessage_onEvent ::
  "sys_state \<Rightarrow> string \<Rightarrow> string \<Rightarrow> string \<Rightarrow> string option \<Rightarrow> json list option \<Rightarrow>
   error + (string \<times> string) \<Rightarrow> string \<Rightarrow> error + (sys_state \<times> emitted list)" where
  "sendMessage_onEvent st blockId eventId channelId txt attachments sent now =
     (if \<not> truthy_str txt \<and> (attachments = None \<or> attachments = Some []) then Inl MissingContent
      else
        (case sent of
           Inl e \<Rightarrow> Inl e
         | Inr (activityId, conversationId) \<Rightarrow>
             Inr (sendMessage_register st blockId activityId eventId,
                  [\<lparr> ev_parentEventId = None, ev_outputKey = None,
                     ev_payload = empty_payload
                       \<lparr> p_activityId := Some activityId, p_conversationId := Some conversationId,
                         p_channelId := Some channelId, p_timestamp := Some now \<rparr> \<rparr>])))"

text \<open>
  Lines 115 to 156: \<^verbatim>\<open>onInternalMessage\<close>. The parent event is read from the block's own
  store under \<^verbatim>\<open>data.activityId\<close>; a falsy result ends the handler. Reading the store
  with an \<^verbatim>\<open>undefined\<close> key finds nothing.
\<close>

definition resolveParentEvent :: "string kv \<Rightarrow> string option \<Rightarrow> string option" where
  "resolveParentEvent store anchor = (case anchor of None \<Rightarrow> None | Some k \<Rightarrow> kv_get store k)"

definition commonEventData :: "body \<Rightarrow> payload" where
  "commonEventData d =
     empty_payload
       \<lparr> p_type := Some (b_type d),
         p_userId := (case b_from d of None \<Rightarrow> None | Some f \<Rightarrow> acc_id f),
         p_userAadObjectId := (case b_from d of None \<Rightarrow> None | Some f \<Rightarrow> acc_aadObjectId f),
         p_activityId := b_activityId d, p_conversationId := b_conversationId d,
         p_timestamp := b_timestamp d \<rparr>"

definition sendMessage_onInternalMessage :: "string kv \<Rightarrow> body \<Rightarrow> emitted list" where
  "sendMessage_onInternalMessage store d =
     (let parentEventId = resolveParentEvent store (b_activityId d)
      in if \<not> truthy_str parentEventId then []
         else
           (if b_type d = ''reaction''
            then [\<lparr> ev_parentEventId = parentEventId, ev_outputKey = Some ''events'',
                    ev_payload = (commonEventData d)
                      \<lparr> p_reactionType := b_reactionType d, p_action := b_action d \<rparr> \<rparr>]
            else [])
           @ (if b_type d = ''action''
              then [\<lparr> ev_parentEventId = parentEventId, ev_outputKey = Some ''events'',
                      ev_payload = (commonEventData d)
                        \<lparr> p_actionId := b_actionId d, p_actionData := b_actionData d \<rparr> \<rparr>]
              else []))"

subsection \<open>\<^verbatim>\<open>subscribeToReplies\<close>\<close>

text \<open>Lines 24 to 32 of \<^verbatim>\<open>subscribeToReplies.ts\<close>: \<^verbatim>\<open>onEvent\<close>, two unconditional writes.\<close>

definition subscribeToReplies_onEvent ::
  "sys_state \<Rightarrow> string \<Rightarrow> string \<Rightarrow> string \<Rightarrow> sys_state" where
  "subscribeToReplies_onEvent st blockId conversationId eventId =
     st \<lparr> blockKv := (blockKv st)(blockId := kv_set conversationId eventId (blockKv st blockId)),
          appKv := kv_set (composite_key ''replies'' conversationId blockId) True (appKv st) \<rparr>"

text \<open>Lines 36 to 59: \<^verbatim>\<open>onInternalMessage\<close>.\<close>

definition subscribeToReplies_onInternalMessage :: "string kv \<Rightarrow> body \<Rightarrow> emitted list" where
  "subscribeToReplies_onInternalMessage store d =
     (let parentEventId = resolveParentEvent store (b_conversationId d)
      in if \<not> truthy_str parentEventId then []
         else
           [\<lparr> ev_parentEventId = parentEventId, ev_outputKey = None,
              ev_payload = empty_payload
                \<lparr> p_text := b_text d, p_attachments := a_attachments (b_activity d),
                  p_userId := (case b_from d of None \<Rightarrow> None | Some f \<Rightarrow> acc_id f),
                  p_userName := (case b_from d of None \<Rightarrow> None | Some f \<Rightarrow> acc_name f),
                  p_userAadObjectId :=
                    (case b_from d of None \<Rightarrow> None | Some f \<Rightarrow> acc_aadObjectId f),
                  p_activityId := a_id (b_activity d), p_timestamp := b_timestamp d \<rparr> \<rparr>])"

subsection \<open>\<^verbatim>\<open>mentionsSubscription\<close>\<close>

text \<open>Lines 19 to 31 of \<^verbatim>\<open>mentionsSubscription.ts\<close>: every mention message is emitted.\<close>

definition mentionsSubscription_onInternalMessage :: "body \<Rightarrow> emitted list" where
  "mentionsSubscription_onInternalMessage d =
     [\<lparr> ev_parentEventId = None, ev_outputKey = None,
        ev_payload = empty_payload
          \<lparr> p_text := b_text d, p_activityId := a_id (b_activity d),
            p_channelId := b_teamsChannelId d, p_serviceUrl := a_serviceUrl (b_activity d),
            p_conversationId := b_conversation d, p_from := b_from d,
            p_timestamp := b_timestamp d \<rparr> \<rparr>]"

subsection \<open>Delivery of internal messages\<close>

text \<open>
  \<^verbatim>\<open>messaging.sendToBlocks\<close> hands the body to \<^verbatim>\<open>onInternalMessage\<close> of every block named,
  each with its own store. A block of another type has no such handler, and an id that
  names no block receives nothing. The events come out tagged with the emitting block.
\<close>

definition block_onInternalMessage ::
  "block_info list \<Rightarrow> (string \<Rightarrow> string kv) \<Rightarrow> string \<Rightarrow> body \<Rightarrow> emitted list" where
  "block_onInternalMessage registry stores blockId d =
     (case find (\<lambda>b. block_id b = blockId) registry of
        None \<Rightarrow> []
      | Some b \<Rightarrow>
          if block_typeId b = ''sendMessage''
          then sendMessage_onInternalMessage (stores blockId) d
          else if block_typeId b = ''threadSubscription''
          then subscribeToReplies_onInternalMessage (stores blockId) d
          else if block_typeId b = ''mentionsSubscription''
          then mentionsSubscription_onInternalMessage d
          else [])"

definition deliver ::
  "block_info list \<Rightarrow> (string \<Rightarrow> string kv) \<Rightarrow> send \<Rightarrow> (string \<times> emitted) list" where
  "deliver registry stores s =
     concat (map (\<lambda>blockId. map (Pair blockId)
                    (block_onInternalMessage registry stores blockId (msg s)))
               (blockIds s))"

text \<open>An inbound activity, end to end: the dispatcher's calls, each delivered.\<close>

definition process_activity ::
  "sys_state \<Rightarrow> block_info list \<Rightarrow> activity \<Rightarrow> string \<Rightarrow> (string \<times> emitted) list" where
  "process_activity st registry a appId =
     concat (map (deliver registry (blockKv st)) (handleBotActivity (appKv st) registry a appId))"

section \<open>Notions used to state the properties\<close>

text \<open>
  The subscriber ids that a lookup under \<^verbatim>\<open>namespace|anchor|\<close> extracts from the shared
  store, and the ids of the blocks of one type that exist now.
\<close>

definition lookup_ids :: "bool kv \<Rightarrow> string \<Rightarrow> string \<Rightarrow> string set" where
  "lookup_ids ks ns anchor = {i. Some i \<in> set (subscribedBlockIds ks (key_prefix ns anchor))}"

definition live_ids :: "block_info list \<Rightarrow> string \<Rightarrow> string set" where
  "live_ids registry typeId = set (existingBlockIds registry typeId)"

text \<open>
  The reply target a handler works with: derived for a message (lines 115 to 128), the
  explicit field for a reaction or an invoke (lines 228 and 300).
\<close>

definition reply_target :: "activity \<Rightarrow> string option" where
  "reply_target a = (if a_type a = Message then derive_replyToId a else a_replyToId a)"

text \<open>The kinds of the messages sent for one activity, in order.\<close>

definition sent_types :: "send list \<Rightarrow> string list" where
  "sent_types sends = map (\<lambda>s. b_type (msg s)) sends"

text \<open>
  The keys that registrations with separator-free ids write have exactly two separators
  and three segments. An index is well formed when its keys are distinct, as the keys of
  a store are, and all of that shape.
\<close>

definition pipes :: "string \<Rightarrow> nat" where
  "pipes s = length (filter (\<lambda>c. c = CHR ''|'') s)"

definition well_formed_index :: "bool kv \<Rightarrow> bool" where
  "well_formed_index ks = (distinct (map fst ks) \<and> list_all (\<lambda>k. pipes k = 2) (map fst ks))"

text \<open>What an emitted reaction event shows: the block, the reaction, the action, the parent.\<close>

definition reaction_view ::
  "string \<times> emitted \<Rightarrow> string \<times> string option \<times> string option \<times> string option" where
  "reaction_view p =
     (fst p, p_reactionType (ev_payload (snd p)), p_action (ev_payload (snd p)),
      ev_parentEventId (snd p))"

text \<open>
  The subscribers a dispatch goes to, as every handler computes them: the ids looked up
  under the key prefix, filtered by the blocks of the type that exist now. And the
  messages of a dispatch other than mentions, those of the reply, action and reaction
  paths.
\<close>

definition live_subscribers ::
  "bool kv \<Rightarrow> block_info list \<Rightarrow> string \<Rightarrow> string \<Rightarrow> string \<Rightarrow> string list" where
  "live_subscribers ks registry ns anchor typeId =
     validBlockIds (subscribedBlockIds ks (key_prefix ns anchor))
       (existingBlockIds registry typeId)"

definition path_sends :: "send list \<Rightarrow> send list" where
  "path_sends sends = filter (\<lambda>s. b_type (msg s) \<noteq> ''mention'') sends"

section \<open>Sample data\<close>

text \<open>Concrete states, registries and activities, used where a statement is run.\<close>

definition empty_state :: sys_state where
  "empty_state = \<lparr> appKv = [], blockKv = (\<lambda>b. []) \<rparr>"

definition blank_activity :: "activity_type \<Rightarrow> activity" where
  "blank_activity ty =
     \<lparr> a_type = ty, a_id = None, a_replyToId = None, a_conversation_id = None, a_from = None,
       a_text = None, a_value = None, a_name = None, a_entities = [], a_teamsChannelId = None,
       a_reactionsAdded = [], a_reactionsRemoved = [], a_timestamp = None,
       a_attachments = None, a_serviceUrl = None \<rparr>"

definition user1 :: channel_account where
  "user1 = \<lparr> acc_id = Some ''29:user1'', acc_name = Some ''User One'', acc_aadObjectId = None \<rparr>"

definition mk_block :: "string \<Rightarrow> string \<Rightarrow> string option \<Rightarrow> block_info" where
  "mk_block i ty ch = \<lparr> block_id = i, block_typeId = ty, block_channelId = ch \<rparr>"

text \<open>
  Two \<^verbatim>\<open>sendMessage\<close> blocks have registered for the message \<open>7\<close>; one of them was deleted
  afterwards.
\<close>

definition two_senders :: sys_state where
  "two_senders =
     sendMessage_register (sendMessage_register empty_state ''blockA'' ''7'' ''evtA'')
       ''blockB'' ''7'' ''evtB''"

definition registry_A :: "block_info list" where
  "registry_A = [mk_block ''blockA'' ''sendMessage'' None]"

definition registry_AB :: "block_info list" where
  "registry_AB = [mk_block ''blockA'' ''sendMessage'' None, mk_block ''blockB'' ''sendMessage'' None]"

definition like :: reaction where
  "like = \<lparr> reaction_type = ''like'' \<rparr>"

definition like_added :: activity where
  "like_added =
     (blank_activity MessageReaction)
       \<lparr> a_id := Some ''9'', a_replyToId := Some ''7'', a_from := Some user1,
         a_reactionsAdded := [like] \<rparr>"

text \<open>
  A thread subscriber of the conversation \<open>19:abc;messageid=123\<close> and a message sender
  registered for the message \<open>123\<close>.
\<close>

definition thread_state :: sys_state where
  "thread_state =
     sendMessage_register
       (subscribeToReplies_onEvent empty_state ''blockT'' ''19:abc;messageid=123'' ''evtT'')
       ''blockA'' ''123'' ''evtA''"

definition registry_thread :: "block_info list" where
  "registry_thread =
     [mk_block ''blockT'' ''threadSubscription'' None, mk_block ''blockA'' ''sendMessage'' None,
      mk_block ''blockM'' ''mentionsSubscription'' None]"

text \<open>An activity in that conversation with no explicit reply target.\<close>

definition in_thread :: "activity_type \<Rightarrow> string \<Rightarrow> activity" where
  "in_thread ty i =
     (blank_activity ty)
       \<lparr> a_id := Some i, a_conversation_id := Some ''19:abc;messageid=123'',
         a_from := Some user1, a_text := Some ''hello'' \<rparr>"

definition bot_mention :: "string \<Rightarrow> entity" where
  "bot_mention i = \<lparr> ent_type = ''mention'', ent_mentioned_id = Some i \<rparr>"

text \<open>
  A message whose explicit \<^verbatim>\<open>replyToId\<close> is its own id, in a conversation with a thread
  subscriber; and the same message carrying a submitted \<^verbatim>\<open>value\<close>, with a sender
  registered for that id.
\<close>

definition self_reply :: activity where
  "self_reply =
     (blank_activity Message)
       \<lparr> a_id := Some ''5'', a_replyToId := Some ''5'', a_conversation_id := Some ''conv1'',
         a_from := Some user1, a_text := Some ''hello'' \<rparr>"

definition self_submit :: activity where
  "self_submit = self_reply \<lparr> a_value := Some (JObj [(''approve'', JBool True)]) \<rparr>"

definition self_state :: sys_state where
  "self_state =
     sendMessage_register
       (subscribeToReplies_onEvent empty_state ''blockT'' ''conv1'' ''evtT'')
       ''blockA'' ''5'' ''evtA''"

text \<open>
  A reply to the message \<open>3\<close> in the conversation \<open>conv1\<close> that mentions the bot
  \<open>28:app\<close>, and a message that mentions another bot.
\<close>

definition mention_reply :: activity where
  "mention_reply =
     (blank_activity Message)
       \<lparr> a_id := Some ''6'', a_replyToId := Some ''3'', a_conversation_id := Some ''conv1'',
         a_from := Some user1, a_text := Some ''<at>bot</at> hello'',
         a_entities := [bot_mention ''28:app''] \<rparr>"

definition other_bot_mention :: activity where
  "other_bot_mention =
     (blank_activity Message)
       \<lparr> a_id := Some ''8'', a_conversation_id := Some ''conv2'',
         a_from := Some user1, a_text := Some ''<at>weather</at> forecast'',
         a_entities := [bot_mention ''28:weather-bot''] \<rparr>"

text \<open>
  Two mention subscribers, \<open>S1\<close> for the channel \<open>19:abc\<close> and \<open>S2\<close> for every channel,
  and a mention of the bot in the channel \<open>19:xyz\<close>.
\<close>

definition registry_mentions :: "block_info list" where
  "registry_mentions =
     [mk_block ''S1'' ''mentionsSubscription'' (Some ''19:abc''),
      mk_block ''S2'' ''mentionsSubscription'' None]"

definition mention_xyz :: activity where
  "mention_xyz =
     (blank_activity Message)
       \<lparr> a_id := Some ''10'', a_conversation_id := Some ''conv3'', a_from := Some user1,
         a_text := Some ''<at>bot</at> status'', a_entities := [bot_mention ''28:app''],
         a_teamsChannelId := Some ''19:xyz'' \<rparr>"

text \<open>A reaction activity that adds \<open>like\<close> and removes \<open>heart\<close> on the message \<open>7\<close>.\<close>

definition like_heart :: activity where
  "like_heart = like_added \<lparr> a_reactionsRemoved := [\<lparr> reaction_type = ''heart'' \<rparr>] \<rparr>"

text \<open>A card action on the message \<open>123\<close>, which \<open>blockA\<close> sent in \<open>thread_state\<close>.\<close>

definition card_invoke :: activity where
  "card_invoke =
     (blank_activity Invoke)
       \<lparr> a_id := Some ''11'', a_replyToId := Some ''123'',
         a_conversation_id := Some ''19:abc;messageid=123'', a_from := Some user1,
         a_name := Some ''approve'', a_value := Some (JObj [(''comment'', JStr ''ok'')]) \<rparr>"

text \<open>
  The block \<open>blockX\<close> subscribes, twice, to the conversation \<open>a|b\<close>, whose id holds the
  separator; the registry has \<open>blockX\<close> and another thread subscriber, \<open>b\<close>.
\<close>

definition separator_state :: sys_state where
  "separator_state =
     subscribeToReplies_onEvent
       (subscribeToReplies_onEvent empty_state ''blockX'' ''a|b'' ''evt1'')
       ''blockX'' ''a|b'' ''evt2''"

definition registry_separator :: "block_info list" where
  "registry_separator =
     [mk_block ''blockX'' ''threadSubscription'' None, mk_block ''b'' ''threadSubscription'' None]"

definition reply_in :: "string \<Rightarrow> activity" where
  "reply_in conv =
     (blank_activity Message)
       \<lparr> a_id := Some ''21'', a_replyToId := Some ''20'', a_conversation_id := Some conv,
         a_from := Some user1, a_text := Some ''hi'' \<rparr>"

text \<open>A message that mentions the bot and submits a card value on the message \<open>5\<close>.\<close>

definition mention_submit :: activity where
  "mention_submit =
     mention_reply
       \<lparr> a_replyToId := Some ''5'', a_value := Some (JObj [(''approve'', JBool True)]) \<rparr>"

section \<open>Properties\<close>

subsection \<open>Shared facts\<close>

lemma kv_get_set: "kv_get (kv_set k v s) k = Some v"
  by (simp add: kv_get_def kv_set_def update_conv')

lemma set_validBlockIds:
  "set (validBlockIds subs existing) = {i. Some i \<in> set subs} \<inter> set existing"
  by (induction subs existing rule: validBlockIds.induct) auto

lemma body_types [simp]:
  "b_type (mention_body a) = ''mention''"
  "b_type (submit_body a r) = ''action''"
  "b_type (reply_body a r c) = ''reply''"
  "b_type (reaction_body a r act x) = ''reaction''"
  "b_type (invoke_body a r) = ''action''"
  by (simp_all add: mention_body_def submit_body_def reply_body_def reaction_body_def
      invoke_body_def empty_body_def)

lemma mention_dispatch_types:
  "s \<in> set (mention_dispatch registry a) \<Longrightarrow> b_type (msg s) = ''mention''"
  by (auto simp: mention_dispatch_def Let_def split: if_splits)

lemma mention_dispatch_sent_types:
  "sent_types (mention_dispatch registry a) = [] \<or>
   sent_types (mention_dispatch registry a) = [''mention'']"
  by (simp add: mention_dispatch_def sent_types_def Let_def)

lemma reply_dispatch_sent_types:
  "sent_types (reply_dispatch ks registry a botId) = [] \<or>
   sent_types (reply_dispatch ks registry a botId) = [''action''] \<or>
   sent_types (reply_dispatch ks registry a botId) = [''reply'']"
  by (cases "derive_replyToId a"; cases "a_conversation_id a")
     (simp_all add: reply_dispatch_def sent_types_def Let_def)

lemma reaction_sent_types:
  "sent_types (handleReactionActivity ks registry a) = [] \<or>
   sent_types (handleReactionActivity ks registry a)
     = replicate (length (a_reactionsAdded a) + length (a_reactionsRemoved a)) ''reaction''"
  by (cases "a_replyToId a")
     (simp_all add: handleReactionActivity_def sent_types_def Let_def map_replicate_const comp_def
        flip: replicate_add)

lemma invoke_sent_types:
  "sent_types (handleInvokeActivity ks registry a) = [] \<or>
   sent_types (handleInvokeActivity ks registry a) = [''action'']"
  by (cases "a_replyToId a") (simp_all add: handleInvokeActivity_def sent_types_def Let_def)

lemma reply_dispatch_cases:
  assumes "s \<in> set (reply_dispatch ks registry a botId)"
  shows "\<exists>r. derive_replyToId a = Some r \<and> r \<noteq> [] \<and> \<not> isFromBot a botId \<and> blockIds s \<noteq> [] \<and>
          ((truthy_val (a_value a) \<and>
            s = \<lparr> blockIds = validBlockIds (subscribedBlockIds ks (key_prefix ''events'' r))
                               (existingBlockIds registry ''sendMessage''),
                  msg = submit_body a r \<rparr>)
           \<or> (\<not> truthy_val (a_value a) \<and>
               (\<exists>c. a_conversation_id a = Some c \<and> c \<noteq> [] \<and>
                 s = \<lparr> blockIds = validBlockIds (subscribedBlockIds ks (key_prefix ''replies'' c))
                                   (existingBlockIds registry ''threadSubscription''),
                       msg = reply_body a r c \<rparr>)))"
  using assms
  by (cases "derive_replyToId a"; cases "a_conversation_id a")
     (auto simp: reply_dispatch_def Let_def split: if_splits)

lemma reaction_cases:
  assumes "s \<in> set (handleReactionActivity ks registry a)"
  shows "\<exists>r. a_replyToId a = Some r \<and> r \<noteq> [] \<and> b_type (msg s) = ''reaction'' \<and> blockIds s \<noteq> [] \<and>
          blockIds s = validBlockIds (subscribedBlockIds ks (key_prefix ''events'' r))
                               (existingBlockIds registry ''sendMessage'')"
  using assms
  by (cases "a_replyToId a") (auto simp: handleReactionActivity_def Let_def split: if_splits)

lemma invoke_cases:
  assumes "s \<in> set (handleInvokeActivity ks registry a)"
  shows "\<exists>r. a_replyToId a = Some r \<and> r \<noteq> [] \<and> blockIds s \<noteq> [] \<and>
          s = \<lparr> blockIds = validBlockIds (subscribedBlockIds ks (key_prefix ''events'' r))
                               (existingBlockIds registry ''sendMessage''),
                 msg = invoke_body a r \<rparr>"
  using assms
  by (cases "a_replyToId a") (auto simp: handleInvokeActivity_def Let_def split: if_splits)

subsection \<open>The parent event of an anchor\<close>

text \<open>
  C1, as the code has it. Registration writes the originating event id without looking
  at the store: \<^verbatim>\<open>kv.block.set\<close> in \<^verbatim>\<open>sendMessage.ts\<close> (line 101) and in
  \<^verbatim>\<open>subscribeToReplies.ts\<close> (line 29). Whatever the block's store held for the anchor,
  after a registration the parent event of the anchor is the event of that registration:
  the last write wins.
\<close>

theorem parent_event_last_write_wins:
  "resolveParentEvent (blockKv (subscribeToReplies_onEvent st blockId anchor eventId) blockId)
     (Some anchor) = Some eventId
   \<and> resolveParentEvent (blockKv (sendMessage_register st blockId anchor eventId) blockId)
       (Some anchor) = Some eventId"
  by (simp add: resolveParentEvent_def subscribeToReplies_onEvent_def sendMessage_register_def
      kv_get_set)

text \<open>
  The write-once reading of C1 fails: a block subscribes to the conversation \<open>conv1\<close> on
  event \<open>evtA\<close> and again on event \<open>evtB\<close>; the parent event is \<open>evtA\<close> after the first
  registration and \<open>evtB\<close> after the second. The same holds for two registrations of
  \<^verbatim>\<open>sendMessage\<close> under one activity id.
\<close>

theorem parent_event_write_once_counterexample:
  "resolveParentEvent
     (blockKv (subscribeToReplies_onEvent empty_state ''blockX'' ''conv1'' ''evtA'') ''blockX'')
     (Some ''conv1'') = Some ''evtA''
   \<and> resolveParentEvent
       (blockKv (subscribeToReplies_onEvent
                  (subscribeToReplies_onEvent empty_state ''blockX'' ''conv1'' ''evtA'')
                  ''blockX'' ''conv1'' ''evtB'') ''blockX'')
       (Some ''conv1'') = Some ''evtB''
   \<and> resolveParentEvent
       (blockKv (sendMessage_register
                  (sendMessage_register empty_state ''blockX'' ''7'' ''evtA'')
                  ''blockX'' ''7'' ''evtB'') ''blockX'')
       (Some ''7'') = Some ''evtB''"
  by (simp add: resolveParentEvent_def subscribeToReplies_onEvent_def sendMessage_register_def
      kv_get_set)

subsection \<open>An anchor without a parent event\<close>

text \<open>
  C7. Before any registration a block's store is empty and no anchor has a parent
  event. When the store of a block gives no parent event for the anchor of an internal
  message (the activity id for \<^verbatim>\<open>sendMessage\<close>, the conversation id for
  \<^verbatim>\<open>subscribeToReplies\<close>), \<^verbatim>\<open>onInternalMessage\<close> emits no event. The handlers are total
  functions with no error result: they return the empty list.
\<close>

theorem absent_parent_no_event:
  "resolveParentEvent [] anchor = None
   \<and> (resolveParentEvent store (b_activityId d) = None
        \<longrightarrow> sendMessage_onInternalMessage store d = [])
   \<and> (resolveParentEvent store (b_conversationId d) = None
        \<longrightarrow> subscribeToReplies_onInternalMessage store d = [])"
  by (simp add: sendMessage_onInternalMessage_def subscribeToReplies_onInternalMessage_def
      truthy_str_def resolveParentEvent_def kv_get_def split: option.splits)

text \<open>
  The statement run: a store that knows the anchor \<open>8\<close> only. A reaction to the message
  \<open>7\<close> and a reply in the conversation \<open>7\<close> emit nothing; the same reaction to the
  message \<open>8\<close> emits one event.
\<close>

theorem absent_parent_no_event_witness:
  "resolveParentEvent [(''8'', ''evtP'')] (b_activityId
       (reaction_body (blank_activity MessageReaction) ''7'' ''add'' \<lparr> reaction_type = ''like'' \<rparr>)) = None
   \<and> sendMessage_onInternalMessage [(''8'', ''evtP'')]
       (reaction_body (blank_activity MessageReaction) ''7'' ''add'' \<lparr> reaction_type = ''like'' \<rparr>) = []
   \<and> resolveParentEvent [(''8'', ''evtP'')] (b_conversationId
       (reply_body (blank_activity Message) ''3'' ''7'')) = None
   \<and> subscribeToReplies_onInternalMessage [(''8'', ''evtP'')]
       (reply_body (blank_activity Message) ''3'' ''7'') = []
   \<and> length (sendMessage_onInternalMessage [(''8'', ''evtP'')]
       (reaction_body (blank_activity MessageReaction) ''8'' ''add'' \<lparr> reaction_type = ''like'' \<rparr>)) = 1"
proof -
  let ?store = "[(''8'', ''evtP'')] :: string kv"
  let ?d = "reaction_body (blank_activity MessageReaction) ''7'' ''add'' \<lparr> reaction_type = ''like'' \<rparr>"
  let ?e = "reply_body (blank_activity Message) ''3'' ''7''"
  have h1: "resolveParentEvent ?store (b_activityId ?d) = None"
    by (simp add: resolveParentEvent_def kv_get_def reaction_body_def empty_body_def)
  have h2: "resolveParentEvent ?store (b_conversationId ?e) = None"
    by (simp add: resolveParentEvent_def kv_get_def reply_body_def empty_body_def)
  have h3: "length (sendMessage_onInternalMessage ?store
       (reaction_body (blank_activity MessageReaction) ''8'' ''add'' \<lparr> reaction_type = ''like'' \<rparr>)) = 1"
    by (simp add: sendMessage_onInternalMessage_def resolveParentEvent_def kv_get_def
        reaction_body_def empty_body_def truthy_str_def)
  from absent_parent_no_event [of "Some ''7''" ?store ?d] h1
  have g1: "sendMessage_onInternalMessage ?store ?d = []" by blast
  from absent_parent_no_event [of "Some ''7''" ?store ?e] h2
  have g2: "subscribeToReplies_onInternalMessage ?store ?e = []" by blast
  from h1 h2 h3 g1 g2 show ?thesis by blast
qed

subsection \<open>The conversation id is a reply target for messages only\<close>

text \<open>
  C10. A reaction or an invoke activity whose explicit \<^verbatim>\<open>replyToId\<close> is absent (or empty)
  makes the dispatcher send nothing, whatever its conversation id holds; so no event is
  emitted for it.
\<close>

theorem fallback_only_for_messages:
  assumes "a_type a = MessageReaction \<or> a_type a = Invoke"
    and "\<not> truthy_str (a_replyToId a)"
  shows "handleBotActivity (appKv st) registry a appId = []
         \<and> process_activity st registry a appId = []"
proof -
  from assms(2) have "handleReactionActivity (appKv st) registry a = []"
    and "handleInvokeActivity (appKv st) registry a = []"
    by (auto simp: handleReactionActivity_def handleInvokeActivity_def truthy_str_def
        split: option.splits)
  with assms(1) show ?thesis
    by (auto simp: handleBotActivity_def process_activity_def)
qed

text \<open>
  The statement run: in the conversation \<open>19:abc;messageid=123\<close>, which has a thread
  subscriber, and with a sender registered for the message \<open>123\<close>, a reaction and an
  invoke without \<^verbatim>\<open>replyToId\<close> send nothing, while a message with the same fields is
  dispatched as a reply to \<open>123\<close>.
\<close>

theorem fallback_only_for_messages_witness:
  "(a_type (in_thread MessageReaction ''456'') = MessageReaction
     \<or> a_type (in_thread MessageReaction ''456'') = Invoke)
   \<and> \<not> truthy_str (a_replyToId (in_thread MessageReaction ''456''))
   \<and> match_messageid ''19:abc;messageid=123'' = Some ''123''
   \<and> handleBotActivity (appKv thread_state) registry_thread (in_thread MessageReaction ''456'') ''app'' = []
   \<and> process_activity thread_state registry_thread (in_thread MessageReaction ''456'') ''app'' = []
   \<and> handleBotActivity (appKv thread_state) registry_thread (in_thread Invoke ''456'') ''app'' = []
   \<and> sent_types (handleBotActivity (appKv thread_state) registry_thread
         (in_thread Message ''456'') ''app'') = [''reply'']"
proof -
  have k1: "a_type (in_thread MessageReaction ''456'') = MessageReaction
            \<or> a_type (in_thread MessageReaction ''456'') = Invoke"
    by (simp add: in_thread_def blank_activity_def)
  have k2: "\<not> truthy_str (a_replyToId (in_thread MessageReaction ''456''))"
    by (simp add: in_thread_def blank_activity_def truthy_str_def)
  have k3: "a_type (in_thread Invoke ''456'') = MessageReaction
            \<or> a_type (in_thread Invoke ''456'') = Invoke"
    by (simp add: in_thread_def blank_activity_def)
  have k4: "\<not> truthy_str (a_replyToId (in_thread Invoke ''456''))"
    by (simp add: in_thread_def blank_activity_def truthy_str_def)
  have m: "match_messageid ''19:abc;messageid=123'' = Some ''123''"
    by code_simp
  have r: "sent_types (handleBotActivity (appKv thread_state) registry_thread
         (in_thread Message ''456'') ''app'') = [''reply'']"
    by code_simp
  from fallback_only_for_messages [OF k1 k2, of thread_state registry_thread "''app''"]
    fallback_only_for_messages [OF k3 k4, of thread_state registry_thread "''app''"]
    k1 k2 m r
  show ?thesis by simp
qed

subsection \<open>A message that refers to itself\<close>

text \<open>
  C2, as the code has it. The comparison with the activity's own id guards the message
  id parsed from the conversation id (lines 119 to 128) and nothing else. For a message
  with no explicit \<^verbatim>\<open>replyToId\<close> whose conversation id carries the message's own id, the
  reply branch sends nothing: whatever the stores and the registry hold, every message
  sent is a mention.
\<close>

theorem self_reference_guard_parsed:
  assumes "a_type a = Message"
    and "\<not> truthy_str (a_replyToId a)"
    and "a_conversation_id a = Some conv"
    and "match_messageid conv = Some m"
    and "a_id a = Some m"
  shows "reply_dispatch ks registry a appId = []
         \<and> (\<forall>s \<in> set (handleBotActivity ks registry a appId).
               b_type (msg s) \<noteq> ''reply'' \<and> b_type (msg s) \<noteq> ''action'')"
proof -
  from assms have "\<not> truthy_str (derive_replyToId a)"
    by (simp add: derive_replyToId_def)
  then have none: "reply_dispatch ks registry a appId = []"
    by (cases "derive_replyToId a") (simp_all add: reply_dispatch_def truthy_str_def)
  with assms(1) show ?thesis
    by (auto simp: handleBotActivity_def handleMessageActivity_def dest: mention_dispatch_types)
qed

text \<open>
  The statement run: the message \<open>123\<close> opens the thread \<open>19:abc;messageid=123\<close> and
  mentions the bot. The conversation has a thread subscriber, yet only the mention is
  sent.
\<close>

theorem self_reference_guard_parsed_witness:
  "a_type ((in_thread Message ''123'') \<lparr> a_entities := [bot_mention ''28:app''] \<rparr>) = Message
   \<and> \<not> truthy_str (a_replyToId ((in_thread Message ''123'') \<lparr> a_entities := [bot_mention ''28:app''] \<rparr>))
   \<and> match_messageid ''19:abc;messageid=123'' = Some ''123''
   \<and> reply_dispatch (appKv thread_state) registry_thread
        ((in_thread Message ''123'') \<lparr> a_entities := [bot_mention ''28:app''] \<rparr>) ''app'' = []
   \<and> sent_types (handleBotActivity (appKv thread_state) registry_thread
        ((in_thread Message ''123'') \<lparr> a_entities := [bot_mention ''28:app''] \<rparr>) ''app'')
       = [''mention'']"
proof -
  let ?a = "(in_thread Message ''123'') \<lparr> a_entities := [bot_mention ''28:app''] \<rparr>"
  have h1: "a_type ?a = Message"
    by (simp add: in_thread_def blank_activity_def)
  have h2: "\<not> truthy_str (a_replyToId ?a)"
    by (simp add: in_thread_def blank_activity_def truthy_str_def)
  have h3: "a_conversation_id ?a = Some ''19:abc;messageid=123''"
    by (simp add: in_thread_def blank_activity_def)
  have h4: "match_messageid ''19:abc;messageid=123'' = Some ''123''"
    by code_simp
  have h5: "a_id ?a = Some ''123''"
    by (simp add: in_thread_def blank_activity_def)
  have run: "sent_types (handleBotActivity (appKv thread_state) registry_thread ?a ''app'')
               = [''mention'']"
    by code_simp
  from self_reference_guard_parsed [OF h1 h2 h3 h4 h5, of "appKv thread_state" registry_thread "''app''"]
  have "reply_dispatch (appKv thread_state) registry_thread ?a ''app'' = []"
    by blast
  with h1 h2 h4 run show ?thesis by blast
qed

text \<open>
  C2 as stated fails for the explicit field: \<^verbatim>\<open>replyToId\<close> is taken as it is (line 115).
  The message \<open>5\<close> with \<^verbatim>\<open>replyToId\<close> \<open>5\<close> is dispatched as a reply, and as an action when
  it carries a \<^verbatim>\<open>value\<close>.
\<close>

theorem self_reference_guard_counterexample:
  "reply_target self_reply = a_id self_reply
   \<and> sent_types (handleBotActivity (appKv self_state) registry_thread self_reply ''app'')
       = [''reply'']
   \<and> reply_target self_submit = a_id self_submit
   \<and> sent_types (handleBotActivity (appKv self_state) registry_thread self_submit ''app'')
       = [''action'']"
proof -
  have "reply_target self_reply = a_id self_reply"
    by (simp add: reply_target_def derive_replyToId_def self_reply_def blank_activity_def
        truthy_str_def)
  moreover have "reply_target self_submit = a_id self_submit"
    by (simp add: reply_target_def derive_replyToId_def self_submit_def self_reply_def
        blank_activity_def truthy_str_def)
  moreover have "sent_types (handleBotActivity (appKv self_state) registry_thread self_reply ''app'')
       = [''reply'']"
    by code_simp
  moreover have "sent_types (handleBotActivity (appKv self_state) registry_thread self_submit ''app'')
       = [''action'']"
    by code_simp
  ultimately show ?thesis by blast
qed

subsection \<open>The paths of one activity\<close>

text \<open>
  C3, as the code has it. The mention branch of \<^verbatim>\<open>handleMessageActivity\<close> does not return,
  so a message goes along the mention path and, independently, along at most one of the
  reply and action paths; each of these three sends at most one message. A reaction
  activity sends nothing or exactly one reaction message for each reaction change and
  nothing else, an invoke at most one action, every other activity nothing.
\<close>

theorem dispatch_paths:
  "sent_types (handleBotActivity ks registry a appId)
     \<in> (case a_type a of
          Message \<Rightarrow>
            {[], [''mention''], [''reply''], [''action''], [''mention'', ''reply''],
             [''mention'', ''action'']}
        | MessageReaction \<Rightarrow>
            {[], replicate (length (a_reactionsAdded a) + length (a_reactionsRemoved a))
                   ''reaction''}
        | ConversationUpdate \<Rightarrow> {[]}
        | Invoke \<Rightarrow> {[], [''action'']}
        | OtherType t \<Rightarrow> {[]})"
proof (cases "a_type a")
  case Message
  have "sent_types (handleMessageActivity ks registry a appId)
          = sent_types (mention_dispatch registry a) @ sent_types (reply_dispatch ks registry a appId)"
    by (simp add: handleMessageActivity_def sent_types_def)
  with mention_dispatch_sent_types [of registry a] reply_dispatch_sent_types [of ks registry a appId]
    Message
  show ?thesis by (auto simp: handleBotActivity_def)
next
  case MessageReaction
  with reaction_sent_types [of ks registry a] show ?thesis
    by (simp add: handleBotActivity_def)
next
  case ConversationUpdate
  then show ?thesis by (simp add: handleBotActivity_def sent_types_def)
next
  case Invoke
  with invoke_sent_types [of ks registry a] show ?thesis
    by (auto simp: handleBotActivity_def)
next
  case (OtherType t)
  then show ?thesis by (simp add: handleBotActivity_def sent_types_def)
qed

text \<open>
  C3 as stated fails: a reply to the message \<open>3\<close> that mentions the bot is sent to the
  mention subscriber and to the thread subscriber, and a card value submitted on the
  message \<open>5\<close> with a mention of the bot is sent to the mention subscriber and to the
  sender of the message.
\<close>

theorem exclusive_classification_counterexample:
  "botMentioned mention_reply
   \<and> reply_target mention_reply = Some ''3''
   \<and> sent_types (handleBotActivity (appKv self_state) registry_thread mention_reply ''app'')
       = [''mention'', ''reply'']
   \<and> botMentioned mention_submit
   \<and> reply_target mention_submit = Some ''5''
   \<and> sent_types (handleBotActivity (appKv self_state) registry_thread mention_submit ''app'')
       = [''mention'', ''action'']"
proof -
  have "botMentioned mention_reply"
    by code_simp
  moreover have "reply_target mention_reply = Some ''3''"
    by (simp add: reply_target_def derive_replyToId_def mention_reply_def blank_activity_def
        truthy_str_def)
  moreover have "sent_types (handleBotActivity (appKv self_state) registry_thread mention_reply ''app'')
       = [''mention'', ''reply'']"
    by code_simp
  moreover have "botMentioned mention_submit"
    by code_simp
  moreover have "reply_target mention_submit = Some ''5''"
    by (simp add: reply_target_def derive_replyToId_def mention_submit_def mention_reply_def
        blank_activity_def truthy_str_def)
  moreover have "sent_types (handleBotActivity (appKv self_state) registry_thread mention_submit ''app'')
       = [''mention'', ''action'']"
    by code_simp
  ultimately show ?thesis by blast
qed

subsection \<open>Which mentions count\<close>

text \<open>
  C4 says that a message is dispatched as a mention exactly when it mentions the bot
  itself, and that a mention of another bot does not count. The code is run here at a
  message that mentions another bot, \<open>28:weather-bot\<close>, and not the bot of this
  application, whose id is \<open>app\<close>: line 74 asks only whether the mentioned id includes
  \<open>28:\<close>, so the message counts as a mention of the bot and is sent to the mention
  subscriber.
\<close>

theorem other_bot_mention_dispatched:
  "botMentioned other_bot_mention
   \<and> \<not> includes_str ''28:weather-bot'' ''app''
   \<and> handleBotActivity [] registry_thread other_bot_mention ''app''
       = [\<lparr> blockIds = [''blockM''], msg = mention_body other_bot_mention \<rparr>]"
proof -
  have "botMentioned other_bot_mention"
    by code_simp
  moreover have "\<not> includes_str ''28:weather-bot'' ''app''"
    by code_simp
  moreover have "handleBotActivity [] registry_thread other_bot_mention ''app''
       = [\<lparr> blockIds = [''blockM''], msg = mention_body other_bot_mention \<rparr>]"
    by code_simp
  ultimately show ?thesis by blast
qed

subsection \<open>Keys and their segments\<close>

lemma split_on_nonempty: "split_on d s \<noteq> []"
  by (induction s) (auto split: list.splits)

lemma split_on_free: "d \<notin> set s \<Longrightarrow> split_on d s = [s]"
  by (induction s) auto

lemma split_on_segment: "d \<notin> set xs \<Longrightarrow> split_on d (xs @ d # ys) = xs # split_on d ys"
  by (induction xs) auto

lemma third_segment:
  assumes "d \<notin> set ns" and "d \<notin> set anchor" and "d \<notin> set rest"
  shows "js_index (split_on d (ns @ d # anchor @ d # rest)) 2 = Some rest"
  using assms by (simp add: split_on_segment split_on_free js_index_def)

lemma pipes_append: "pipes (xs @ ys) = pipes xs + pipes ys"
  by (simp add: pipes_def)

lemma pipes_zero: "pipes s = 0 \<longleftrightarrow> CHR ''|'' \<notin> set s"
  by (auto simp: pipes_def filter_empty_conv)

lemma pipes_composite:
  assumes "CHR ''|'' \<notin> set ns" and "CHR ''|'' \<notin> set anchor" and "CHR ''|'' \<notin> set blockId"
  shows "pipes (composite_key ns anchor blockId) = 2"
proof -
  from assms have "pipes ns = 0" "pipes anchor = 0" "pipes blockId = 0"
    by (simp_all add: pipes_zero)
  then show ?thesis
    by (simp add: composite_key_def pipes_append) (simp add: pipes_def)
qed

lemma composite_key_prefix: "composite_key ns anchor blockId = key_prefix ns anchor @ blockId"
  by (simp add: composite_key_def key_prefix_def)

lemma third_segment_of_key:
  assumes ns: "CHR ''|'' \<notin> set ns" and an: "CHR ''|'' \<notin> set anchor"
    and two: "pipes k = 2" and pre: "prefix (key_prefix ns anchor) k"
  shows "js_index (split_on CHR ''|'' k) 2 = Some (drop (length (key_prefix ns anchor)) k)"
proof -
  from pre obtain rest where k: "k = key_prefix ns anchor @ rest"
    by (auto simp: prefix_def)
  from ns an have "pipes (key_prefix ns anchor) = 2"
    using pipes_composite [of ns anchor "[]"] by (simp add: composite_key_prefix)
  with two k have "pipes rest = 0"
    by (simp add: pipes_append)
  then have free: "CHR ''|'' \<notin> set rest"
    by (simp add: pipes_zero)
  have "k = ns @ CHR ''|'' # anchor @ CHR ''|'' # rest"
    by (simp add: k key_prefix_def)
  with third_segment [OF ns an free] have "js_index (split_on CHR ''|'' k) 2 = Some rest"
    by simp
  moreover have "drop (length (key_prefix ns anchor)) k = rest"
    by (simp add: k)
  ultimately show ?thesis
    by simp
qed

lemma count_list_map_filter:
  "count_list (map f (filter P xs)) y = length (filter (\<lambda>x. P x \<and> f x = y) xs)"
  by (induction xs) auto

lemma one_entry_per_key:
  "distinct (map fst xs) \<Longrightarrow> k \<in> set (map fst xs) \<Longrightarrow> length (filter (\<lambda>p. fst p = k) xs) = 1"
proof (induction xs)
  case Nil
  then show ?case by simp
next
  case (Cons x xs)
  show ?case
  proof (cases "fst x = k")
    case True
    with Cons.prems have "k \<notin> set (map fst xs)" by auto
    then have "filter (\<lambda>p. fst p = k) xs = []"
      by (auto simp: filter_empty_conv)
    with True show ?thesis by simp
  next
    case False
    with Cons show ?thesis by auto
  qed
qed

lemma well_formed_kv_set:
  assumes "well_formed_index ks" and "pipes k = 2"
  shows "well_formed_index (kv_set k v ks)"
  using assms
  by (auto simp: well_formed_index_def kv_set_def distinct_update update_keys list_all_iff)

lemma kv_set_twice: "kv_set k v (kv_set k v' ks) = kv_set k v ks"
  by (simp add: kv_set_def)

lemma key_in_kv_set: "k \<in> set (map fst (kv_set k v ks))"
  by (simp add: kv_set_def update_keys)

lemma lookup_counts_once:
  assumes wf: "well_formed_index ks"
    and ns: "CHR ''|'' \<notin> set ns" and an: "CHR ''|'' \<notin> set anchor"
    and bl: "CHR ''|'' \<notin> set blockId"
  shows "count_list
           (subscribedBlockIds (kv_set (composite_key ns anchor blockId) True ks)
              (key_prefix ns anchor))
           (Some blockId) = 1"
proof -
  let ?key = "composite_key ns anchor blockId"
  let ?ks = "kv_set ?key True ks"
  let ?pre = "key_prefix ns anchor"
  have wf': "well_formed_index ?ks"
    using wf pipes_composite [OF ns an bl] by (rule well_formed_kv_set)
  have same: "(prefix ?pre (fst p) \<and> js_index (split_on CHR ''|'' (fst p)) 2 = Some blockId)
              \<longleftrightarrow> fst p = ?key" if "p \<in> set ?ks" for p
  proof
    assume a: "prefix ?pre (fst p) \<and> js_index (split_on CHR ''|'' (fst p)) 2 = Some blockId"
    from that wf' have two: "pipes (fst p) = 2"
      by (auto simp: well_formed_index_def list_all_iff)
    from a third_segment_of_key [OF ns an two] have "drop (length ?pre) (fst p) = blockId"
      by simp
    moreover from a have "take (length ?pre) (fst p) = ?pre"
      by (auto simp: prefix_def)
    ultimately have "fst p = ?pre @ blockId"
      by (metis append_take_drop_id)
    then show "fst p = ?key"
      by (simp add: composite_key_prefix)
  next
    assume e: "fst p = ?key"
    then have "prefix ?pre (fst p)"
      by (simp add: composite_key_prefix)
    moreover have "js_index (split_on CHR ''|'' (fst p)) 2 = Some blockId"
      using third_segment [OF ns an bl] e by (simp add: composite_key_def)
    ultimately show "prefix ?pre (fst p) \<and> js_index (split_on CHR ''|'' (fst p)) 2 = Some blockId"
      by simp
  qed
  have "count_list (subscribedBlockIds ?ks ?pre) (Some blockId)
          = length (filter (\<lambda>p. prefix ?pre (fst p)
                \<and> js_index (split_on CHR ''|'' (fst p)) 2 = Some blockId) ?ks)"
    by (simp add: subscribedBlockIds_def kv_list_def count_list_map_filter)
  also have "\<dots> = length (filter (\<lambda>p. fst p = ?key) ?ks)"
  proof -
    have "filter (\<lambda>p. prefix ?pre (fst p)
                \<and> js_index (split_on CHR ''|'' (fst p)) 2 = Some blockId) ?ks
            = filter (\<lambda>p. fst p = ?key) ?ks"
    proof (rule filter_cong [OF refl])
      fix p assume "p \<in> set ?ks"
      then show "(prefix ?pre (fst p) \<and> js_index (split_on CHR ''|'' (fst p)) 2 = Some blockId)
                  = (fst p = ?key)"
        by (rule same)
    qed
    then show ?thesis by (rule arg_cong)
  qed
  also have "\<dots> = 1"
    using wf' key_in_kv_set by (intro one_entry_per_key) (auto simp: well_formed_index_def)
  finally show ?thesis .
qed

subsection \<open>Registering twice\<close>

lemma register_twice_same_index:
  "appKv (subscribeToReplies_onEvent (subscribeToReplies_onEvent st blockId anchor e1)
            blockId anchor e2)
     = appKv (subscribeToReplies_onEvent st blockId anchor e1)"
  "appKv (sendMessage_register (sendMessage_register st blockId anchor e1) blockId anchor e2)
     = appKv (sendMessage_register st blockId anchor e1)"
  by (simp_all add: subscribeToReplies_onEvent_def sendMessage_register_def kv_set_twice)

text \<open>
  What holds of registering twice. The second registration of a block under an anchor
  leaves the shared store as the first one left it, so a lookup returns the same list,
  for every anchor and block id. The lookup reads the subscriber as the third segment of
  the key: when the anchor and the block id hold no separator and the index is well
  formed, the lookup under the anchor returns the block exactly once. This holds for
  \<^verbatim>\<open>subscribeToReplies\<close> under \<open>replies\<close> and for \<^verbatim>\<open>sendMessage\<close> under \<open>events\<close>.
\<close>

lemma registration_idempotent:
  "subscribedBlockIds
     (appKv (subscribeToReplies_onEvent (subscribeToReplies_onEvent st blockId anchor e1)
               blockId anchor e2)) (key_prefix ''replies'' anchor)
     = subscribedBlockIds (appKv (subscribeToReplies_onEvent st blockId anchor e1))
         (key_prefix ''replies'' anchor)
   \<and> subscribedBlockIds
       (appKv (sendMessage_register (sendMessage_register st blockId anchor e1)
                 blockId anchor e2)) (key_prefix ''events'' anchor)
       = subscribedBlockIds (appKv (sendMessage_register st blockId anchor e1))
           (key_prefix ''events'' anchor)
   \<and> (well_formed_index (appKv st) \<and> CHR ''|'' \<notin> set anchor \<and> CHR ''|'' \<notin> set blockId
      \<longrightarrow> count_list
            (subscribedBlockIds
              (appKv (subscribeToReplies_onEvent (subscribeToReplies_onEvent st blockId anchor e1)
                        blockId anchor e2)) (key_prefix ''replies'' anchor))
            (Some blockId) = 1
          \<and> count_list
              (subscribedBlockIds
                (appKv (sendMessage_register (sendMessage_register st blockId anchor e1)
                          blockId anchor e2)) (key_prefix ''events'' anchor))
              (Some blockId) = 1)"
proof -
  have r: "CHR ''|'' \<notin> set ''replies''" and e: "CHR ''|'' \<notin> set ''events''"
    by simp_all
  have once: "count_list
          (subscribedBlockIds (appKv (subscribeToReplies_onEvent st blockId anchor e1))
             (key_prefix ''replies'' anchor)) (Some blockId) = 1
        \<and> count_list
          (subscribedBlockIds (appKv (sendMessage_register st blockId anchor e1))
             (key_prefix ''events'' anchor)) (Some blockId) = 1"
    if wf: "well_formed_index (appKv st)"
      and an: "CHR ''|'' \<notin> set anchor" and bl: "CHR ''|'' \<notin> set blockId"
    using lookup_counts_once [OF wf r an bl] lookup_counts_once [OF wf e an bl]
    by (simp add: subscribeToReplies_onEvent_def sendMessage_register_def)
  then show ?thesis
    by (simp only: register_twice_same_index) blast
qed

text \<open>
  The statement run: \<open>blockA\<close> and \<open>blockB\<close> have registered for the message \<open>7\<close>, and
  \<open>blockA\<close> registers for it twice more. The lookup returns each block once.
\<close>

lemma registration_idempotent_run:
  "well_formed_index (appKv two_senders)
   \<and> CHR ''|'' \<notin> set ''7'' \<and> CHR ''|'' \<notin> set ''blockA''
   \<and> subscribedBlockIds
       (appKv (sendMessage_register (sendMessage_register two_senders ''blockA'' ''7'' ''evtC'')
                 ''blockA'' ''7'' ''evtD'')) (key_prefix ''events'' ''7'')
       = [Some ''blockA'', Some ''blockB'']
   \<and> count_list
       (subscribedBlockIds
         (appKv (sendMessage_register (sendMessage_register two_senders ''blockA'' ''7'' ''evtC'')
                   ''blockA'' ''7'' ''evtD'')) (key_prefix ''events'' ''7''))
       (Some ''blockA'') = 1"
proof -
  have keys: "appKv two_senders = [(''events|7|blockA'', True), (''events|7|blockB'', True)]"
    by code_simp
  have wf: "well_formed_index (appKv two_senders)"
    unfolding keys by (simp add: well_formed_index_def pipes_def)
  have a: "CHR ''|'' \<notin> set ''7''" and b: "CHR ''|'' \<notin> set ''blockA''"
    by simp_all
  have run: "subscribedBlockIds
       (appKv (sendMessage_register (sendMessage_register two_senders ''blockA'' ''7'' ''evtC'')
                 ''blockA'' ''7'' ''evtD'')) (key_prefix ''events'' ''7'')
       = [Some ''blockA'', Some ''blockB'']"
    by code_simp
  from registration_idempotent [of two_senders "''blockA''" "''7''" "''evtC''" "''evtD''"] wf a b
  have "count_list
       (subscribedBlockIds
         (appKv (sendMessage_register (sendMessage_register two_senders ''blockA'' ''7'' ''evtC'')
                   ''blockA'' ''7'' ''evtD'')) (key_prefix ''events'' ''7''))
       (Some ''blockA'') = 1"
    by blast
  with wf a b run show ?thesis by blast
qed

text \<open>
  C5 says that, for every namespace, anchor and subscriber, after registering twice the
  lookup under the anchor returns the subscriber exactly once. The code is run here at
  an anchor that holds the separator: the conversation id given to
  \<^verbatim>\<open>subscribeToReplies\<close> is free text. Registered twice under the conversation \<open>a|b\<close>,
  the block \<open>blockX\<close> has the one key \<open>replies|a|b|blockX\<close>, and \<^verbatim>\<open>key.split("|")[2]\<close>
  reads its third segment, \<open>b\<close>. The lookup under \<open>a|b\<close> returns \<open>b\<close> and never
  \<open>blockX\<close>; a reply in that conversation is sent to the block \<open>b\<close>, and so is a reply
  in the conversation \<open>a\<close>; with \<open>blockX\<close> alone in the registry the reply is sent to
  nobody.
\<close>

theorem lookup_misreads_separator:
  "appKv separator_state = [(''replies|a|b|blockX'', True)]
   \<and> subscribedBlockIds (appKv separator_state) (key_prefix ''replies'' ''a|b'') = [Some ''b'']
   \<and> count_list (subscribedBlockIds (appKv separator_state) (key_prefix ''replies'' ''a|b''))
       (Some ''blockX'') = 0
   \<and> map blockIds (handleBotActivity (appKv separator_state) registry_separator
         (reply_in ''a|b'') ''app'') = [[''b'']]
   \<and> map blockIds (handleBotActivity (appKv separator_state) registry_separator
         (reply_in ''a'') ''app'') = [[''b'']]
   \<and> handleBotActivity (appKv separator_state)
         [mk_block ''blockX'' ''threadSubscription'' None] (reply_in ''a|b'') ''app'' = []"
proof -
  have "appKv separator_state = [(''replies|a|b|blockX'', True)]"
    by code_simp
  moreover have found: "subscribedBlockIds (appKv separator_state) (key_prefix ''replies'' ''a|b'')
      = [Some ''b'']"
    by code_simp
  moreover have "count_list
      (subscribedBlockIds (appKv separator_state) (key_prefix ''replies'' ''a|b''))
      (Some ''blockX'') = 0"
    unfolding found by simp
  moreover have "map blockIds (handleBotActivity (appKv separator_state) registry_separator
         (reply_in ''a|b'') ''app'') = [[''b'']]"
    by code_simp
  moreover have "map blockIds (handleBotActivity (appKv separator_state) registry_separator
         (reply_in ''a'') ''app'') = [[''b'']]"
    by code_simp
  moreover have "handleBotActivity (appKv separator_state)
         [mk_block ''blockX'' ''threadSubscription'' None] (reply_in ''a|b'') ''app'' = []"
    by code_simp
  ultimately show ?thesis by blast
qed

subsection \<open>The channel filter of mentions\<close>

lemma mention_targets:
  assumes "botMentioned a"
  shows "(\<exists>s \<in> set (mention_dispatch registry a). i \<in> set (blockIds s))
         \<longleftrightarrow> (\<exists>b \<in> set registry. block_id b = i \<and> block_typeId b = ''mentionsSubscription''
                \<and> passes_channel_filter (a_teamsChannelId a) b)"
  using assms by (auto simp: mention_dispatch_def Let_def blocks_list_def filter_empty_conv)

lemma reply_dispatch_not_mention:
  "s \<in> set (reply_dispatch ks registry a botId) \<Longrightarrow> b_type (msg s) \<noteq> ''mention''"
  by (drule reply_dispatch_cases) auto

text \<open>
  C9. For a message that mentions the bot, a mention subscriber is among the blocks of
  the mention message exactly when its configured channel is unset (or empty) or equal
  to the channel of the activity. Block ids are unique in the registry.
\<close>

theorem mention_channel_filter:
  assumes "a_type a = Message"
    and "botMentioned a"
    and "distinct (map block_id registry)"
    and "b \<in> set registry"
    and "block_typeId b = ''mentionsSubscription''"
  shows "(\<exists>s \<in> set (handleBotActivity ks registry a appId).
            b_type (msg s) = ''mention'' \<and> block_id b \<in> set (blockIds s))
         \<longleftrightarrow> (\<not> truthy_str (block_channelId b) \<or> block_channelId b = a_teamsChannelId a)"
proof -
  have "(\<exists>s \<in> set (handleBotActivity ks registry a appId).
            b_type (msg s) = ''mention'' \<and> block_id b \<in> set (blockIds s))
        \<longleftrightarrow> (\<exists>s \<in> set (mention_dispatch registry a). block_id b \<in> set (blockIds s))"
    using assms(1)
    by (auto simp: handleBotActivity_def handleMessageActivity_def
        dest: reply_dispatch_not_mention mention_dispatch_types)
  also have "\<dots> \<longleftrightarrow> (\<exists>b' \<in> set registry. block_id b' = block_id b
                \<and> block_typeId b' = ''mentionsSubscription''
                \<and> passes_channel_filter (a_teamsChannelId a) b')"
    by (rule mention_targets [OF assms(2)])
  also have "\<dots> \<longleftrightarrow> passes_channel_filter (a_teamsChannelId a) b"
  proof -
    have "b' = b" if "b' \<in> set registry" and "block_id b' = block_id b" for b'
      using that assms(3,4) by (meson distinct_map inj_onD)
    with assms(4,5) show ?thesis by auto
  qed
  finally show ?thesis
    by (simp add: passes_channel_filter_def)
qed

text \<open>
  The statement run: the bot is mentioned in the channel \<open>19:xyz\<close>. \<open>S1\<close>, configured for
  \<open>19:abc\<close>, is left out; \<open>S2\<close>, with no channel configured, receives the mention.
\<close>

theorem mention_channel_filter_witness:
  "a_type mention_xyz = Message \<and> botMentioned mention_xyz
   \<and> distinct (map block_id registry_mentions)
   \<and> handleBotActivity [] registry_mentions mention_xyz ''app''
       = [\<lparr> blockIds = [''S2''], msg = mention_body mention_xyz \<rparr>]
   \<and> (\<exists>s \<in> set (handleBotActivity [] registry_mentions mention_xyz ''app'').
         b_type (msg s) = ''mention''
         \<and> block_id (mk_block ''S2'' ''mentionsSubscription'' None) \<in> set (blockIds s))
   \<and> \<not> (\<exists>s \<in> set (handleBotActivity [] registry_mentions mention_xyz ''app'').
         b_type (msg s) = ''mention''
         \<and> block_id (mk_block ''S1'' ''mentionsSubscription'' (Some ''19:abc'')) \<in> set (blockIds s))"
proof -
  let ?S1 = "mk_block ''S1'' ''mentionsSubscription'' (Some ''19:abc'')"
  let ?S2 = "mk_block ''S2'' ''mentionsSubscription'' None"
  have h1: "a_type mention_xyz = Message"
    by (simp add: mention_xyz_def blank_activity_def)
  have h2: "botMentioned mention_xyz"
    by code_simp
  have h3: "distinct (map block_id registry_mentions)"
    by (simp add: registry_mentions_def mk_block_def)
  have m1: "?S1 \<in> set registry_mentions" and m2: "?S2 \<in> set registry_mentions"
    by (simp_all add: registry_mentions_def)
  have t1: "block_typeId ?S1 = ''mentionsSubscription''"
    and t2: "block_typeId ?S2 = ''mentionsSubscription''"
    by (simp_all add: mk_block_def)
  have c1: "\<not> (\<not> truthy_str (block_channelId ?S1)
               \<or> block_channelId ?S1 = a_teamsChannelId mention_xyz)"
    by (simp add: mk_block_def truthy_str_def mention_xyz_def blank_activity_def)
  have c2: "\<not> truthy_str (block_channelId ?S2)
               \<or> block_channelId ?S2 = a_teamsChannelId mention_xyz"
    by (simp add: mk_block_def truthy_str_def)
  have run: "handleBotActivity [] registry_mentions mention_xyz ''app''
       = [\<lparr> blockIds = [''S2''], msg = mention_body mention_xyz \<rparr>]"
    by code_simp
  note in2 = mention_channel_filter [OF h1 h2 h3 m2 t2, of "[]" "''app''"]
  note in1 = mention_channel_filter [OF h1 h2 h3 m1 t1, of "[]" "''app''"]
  from in2 c2 have r2: "\<exists>s \<in> set (handleBotActivity [] registry_mentions mention_xyz ''app'').
         b_type (msg s) = ''mention'' \<and> block_id ?S2 \<in> set (blockIds s)"
    by blast
  from in1 c1 have r1: "\<not> (\<exists>s \<in> set (handleBotActivity [] registry_mentions mention_xyz ''app'').
         b_type (msg s) = ''mention'' \<and> block_id ?S1 \<in> set (blockIds s))"
    by blast
  from h1 h2 h3 run r1 r2 show ?thesis by blast
qed

subsection \<open>Reactions\<close>

lemma find_by_id:
  "distinct (map block_id registry) \<Longrightarrow> b \<in> set registry
   \<Longrightarrow> find (\<lambda>x. block_id x = block_id b) registry = Some b"
  by (induction registry) auto

lemma valid_blocks_exist:
  assumes "i \<in> set (validBlockIds subs (existingBlockIds registry ty))"
  shows "\<exists>b \<in> set registry. block_id b = i \<and> block_typeId b = ty"
  using assms by (auto simp: set_validBlockIds existingBlockIds_def blocks_list_def)

lemma sender_receives_reaction:
  assumes "distinct (map block_id registry)"
    and "b \<in> set registry" and "block_typeId b = ''sendMessage''"
    and "truthy_str (kv_get (stores (block_id b)) r)"
  shows "map reaction_view (map (Pair (block_id b))
           (block_onInternalMessage registry stores (block_id b) (reaction_body a r act x)))
         = [(block_id b, Some (reaction_type x), Some act, kv_get (stores (block_id b)) r)]"
  using assms
  by (simp add: block_onInternalMessage_def find_by_id sendMessage_onInternalMessage_def
      resolveParentEvent_def reaction_view_def reaction_body_def empty_body_def)

lemma deliver_reaction:
  assumes "distinct (map block_id registry)"
    and "\<forall>i \<in> set ids. \<exists>b \<in> set registry. block_id b = i \<and> block_typeId b = ''sendMessage''"
    and "\<forall>i \<in> set ids. truthy_str (kv_get (stores i) r)"
  shows "map reaction_view (deliver registry stores \<lparr> blockIds = ids, msg = reaction_body a r act x \<rparr>)
         = map (\<lambda>i. (i, Some (reaction_type x), Some act, kv_get (stores i) r)) ids"
  using assms(2,3)
proof (induction ids)
  case Nil
  then show ?case by (simp add: deliver_def)
next
  case (Cons i ids)
  then obtain b where b: "b \<in> set registry" "block_id b = i" "block_typeId b = ''sendMessage''"
    by auto
  from Cons.prems have t: "truthy_str (kv_get (stores (block_id b)) r)"
    using b by simp
  from Cons have ih: "map reaction_view
      (deliver registry stores \<lparr> blockIds = ids, msg = reaction_body a r act x \<rparr>)
      = map (\<lambda>i. (i, Some (reaction_type x), Some act, kv_get (stores i) r)) ids"
    by simp
  note one = sender_receives_reaction
    [where registry = registry and b = b and stores = stores and r = r and a = a
       and act = act and x = x, OF assms(1) b(1) b(3) t]
  from one b(2) ih show ?case
    by (simp add: deliver_def)
qed

text \<open>
  C8. For a reaction activity with a reply target and at least one live subscriber, the
  dispatcher sends one message per reaction change, the added ones first and in their
  order, then the removed ones, each to all live subscribers. When block ids are unique
  and every live subscriber has a parent event recorded for the target, as registration
  leaves it, the events emitted are one per change and per live subscriber, in that
  order, each with the reaction type and the action \<open>add\<close> or \<open>remove\<close>.
\<close>

theorem reaction_fanout:
  assumes "a_type a = MessageReaction"
    and "a_replyToId a = Some r" and "r \<noteq> []"
    and "valid = validBlockIds (subscribedBlockIds (appKv st) (key_prefix ''events'' r))
                   (existingBlockIds registry ''sendMessage'')"
    and "valid \<noteq> []"
  shows "handleBotActivity (appKv st) registry a appId
           = map (\<lambda>x. \<lparr> blockIds = valid, msg = reaction_body a r ''add'' x \<rparr>)
               (a_reactionsAdded a)
             @ map (\<lambda>x. \<lparr> blockIds = valid, msg = reaction_body a r ''remove'' x \<rparr>)
                 (a_reactionsRemoved a)
         \<and> (distinct (map block_id registry)
              \<and> (\<forall>i \<in> set valid. truthy_str (kv_get (blockKv st i) r))
            \<longrightarrow> map reaction_view (process_activity st registry a appId)
                  = concat (map (\<lambda>(x, act).
                              map (\<lambda>i. (i, Some (reaction_type x), Some act,
                                         kv_get (blockKv st i) r)) valid)
                      (map (\<lambda>x. (x, ''add'')) (a_reactionsAdded a)
                       @ map (\<lambda>x. (x, ''remove'')) (a_reactionsRemoved a))))"
proof -
  have sends: "handleBotActivity (appKv st) registry a appId
           = map (\<lambda>x. \<lparr> blockIds = valid, msg = reaction_body a r ''add'' x \<rparr>)
               (a_reactionsAdded a)
             @ map (\<lambda>x. \<lparr> blockIds = valid, msg = reaction_body a r ''remove'' x \<rparr>)
                 (a_reactionsRemoved a)"
  proof -
    from assms(4,5) have "subscribedBlockIds (appKv st) (key_prefix ''events'' r) \<noteq> []"
      by auto
    with assms show ?thesis
      by (simp add: handleBotActivity_def handleReactionActivity_def Let_def)
  qed
  have events: "map reaction_view (process_activity st registry a appId)
                  = concat (map (\<lambda>(x, act).
                              map (\<lambda>i. (i, Some (reaction_type x), Some act,
                                         kv_get (blockKv st i) r)) valid)
                      (map (\<lambda>x. (x, ''add'')) (a_reactionsAdded a)
                       @ map (\<lambda>x. (x, ''remove'')) (a_reactionsRemoved a)))"
    if d: "distinct (map block_id registry)"
      and t: "\<forall>i \<in> set valid. truthy_str (kv_get (blockKv st i) r)"
  proof -
    have ex: "\<forall>i \<in> set valid. \<exists>b \<in> set registry. block_id b = i \<and> block_typeId b = ''sendMessage''"
      unfolding assms(4) by (blast dest: valid_blocks_exist)
    have one: "map reaction_view
                 (deliver registry (blockKv st) \<lparr> blockIds = valid, msg = reaction_body a r act x \<rparr>)
               = map (\<lambda>i. (i, Some (reaction_type x), Some act, kv_get (blockKv st i) r)) valid"
      for act x
      using d ex t by (rule deliver_reaction)
    show ?thesis
      by (simp add: process_activity_def sends map_concat comp_def one)
  qed
  from sends events show ?thesis by blast
qed

text \<open>
  The statement run: \<open>blockA\<close> and \<open>blockB\<close> sent and registered the message \<open>7\<close>, and
  both exist. An activity that adds \<open>like\<close> and removes \<open>heart\<close> on the message gives four
  events: \<open>like\<close> added for each block, then \<open>heart\<close> removed for each block. The activity
  that only adds \<open>like\<close> gives two.
\<close>

theorem reaction_fanout_witness:
  "a_type like_heart = MessageReaction \<and> a_replyToId like_heart = Some ''7''
   \<and> validBlockIds (subscribedBlockIds (appKv two_senders) (key_prefix ''events'' ''7''))
        (existingBlockIds registry_AB ''sendMessage'') = [''blockA'', ''blockB'']
   \<and> distinct (map block_id registry_AB)
   \<and> handleBotActivity (appKv two_senders) registry_AB like_heart ''app''
       = [\<lparr> blockIds = [''blockA'', ''blockB''], msg = reaction_body like_heart ''7'' ''add'' like \<rparr>,
          \<lparr> blockIds = [''blockA'', ''blockB''],
            msg = reaction_body like_heart ''7'' ''remove'' \<lparr> reaction_type = ''heart'' \<rparr> \<rparr>]
   \<and> map reaction_view (process_activity two_senders registry_AB like_heart ''app'')
       = [(''blockA'', Some ''like'', Some ''add'', Some ''evtA''),
          (''blockB'', Some ''like'', Some ''add'', Some ''evtB''),
          (''blockA'', Some ''heart'', Some ''remove'', Some ''evtA''),
          (''blockB'', Some ''heart'', Some ''remove'', Some ''evtB'')]
   \<and> map reaction_view (process_activity two_senders registry_AB like_added ''app'')
       = [(''blockA'', Some ''like'', Some ''add'', Some ''evtA''),
          (''blockB'', Some ''like'', Some ''add'', Some ''evtB'')]"
proof -
  let ?valid = "[''blockA'', ''blockB'']"
  have h1: "a_type like_heart = MessageReaction"
    by (simp add: like_heart_def like_added_def blank_activity_def)
  have h2: "a_replyToId like_heart = Some ''7''"
    by (simp add: like_heart_def like_added_def blank_activity_def)
  have h3: "''7'' \<noteq> []"
    by simp
  have h4: "?valid = validBlockIds (subscribedBlockIds (appKv two_senders) (key_prefix ''events'' ''7''))
        (existingBlockIds registry_AB ''sendMessage'')"
    by code_simp
  have h5: "?valid \<noteq> []"
    by simp
  have d: "distinct (map block_id registry_AB)"
    by (simp add: registry_AB_def mk_block_def)
  have pa: "kv_get (blockKv two_senders ''blockA'') ''7'' = Some ''evtA''"
    and pb: "kv_get (blockKv two_senders ''blockB'') ''7'' = Some ''evtB''"
    by (simp_all add: two_senders_def sendMessage_register_def empty_state_def kv_get_def
        kv_set_def)
  have t: "\<forall>i \<in> set ?valid. truthy_str (kv_get (blockKv two_senders i) ''7'')"
    by (simp add: pa pb truthy_str_def)
  have added: "a_reactionsAdded like_heart = [like]"
    and removed: "a_reactionsRemoved like_heart = [\<lparr> reaction_type = ''heart'' \<rparr>]"
    by (simp_all add: like_heart_def like_added_def blank_activity_def)
  note inst = reaction_fanout [OF h1 h2 h3 h4 h5, of "''app''"]
  from inst have sends: "handleBotActivity (appKv two_senders) registry_AB like_heart ''app''
       = [\<lparr> blockIds = ?valid, msg = reaction_body like_heart ''7'' ''add'' like \<rparr>,
          \<lparr> blockIds = ?valid,
            msg = reaction_body like_heart ''7'' ''remove'' \<lparr> reaction_type = ''heart'' \<rparr> \<rparr>]"
    by (simp add: added removed)
  from inst d t have "map reaction_view (process_activity two_senders registry_AB like_heart ''app'')
       = concat (map (\<lambda>(x, act).
                   map (\<lambda>i. (i, Some (reaction_type x), Some act,
                              kv_get (blockKv two_senders i) ''7'')) ?valid)
           (map (\<lambda>x. (x, ''add'')) (a_reactionsAdded like_heart)
            @ map (\<lambda>x. (x, ''remove'')) (a_reactionsRemoved like_heart)))"
    by blast
  then have events: "map reaction_view (process_activity two_senders registry_AB like_heart ''app'')
       = [(''blockA'', Some ''like'', Some ''add'', Some ''evtA''),
          (''blockB'', Some ''like'', Some ''add'', Some ''evtB''),
          (''blockA'', Some ''heart'', Some ''remove'', Some ''evtA''),
          (''blockB'', Some ''heart'', Some ''remove'', Some ''evtB'')]"
    by (simp add: added removed pa pb like_def)
  have single: "map reaction_view (process_activity two_senders registry_AB like_added ''app'')
       = [(''blockA'', Some ''like'', Some ''add'', Some ''evtA''),
          (''blockB'', Some ''like'', Some ''add'', Some ''evtB'')]"
    by code_simp
  from h1 h2 h4 d sends events single show ?thesis by simp
qed

subsection \<open>The liveness filter\<close>

lemma set_live_subscribers:
  "set (live_subscribers ks registry ns anchor typeId)
     = lookup_ids ks ns anchor \<inter> live_ids registry typeId"
  by (simp add: live_subscribers_def set_validBlockIds lookup_ids_def live_ids_def)

lemma live_subscribers_empty:
  "live_subscribers ks registry ns anchor typeId = []
     \<longleftrightarrow> lookup_ids ks ns anchor \<inter> live_ids registry typeId = {}"
  using set_live_subscribers [of ks registry ns anchor typeId] by (metis set_empty)

lemma no_subscription_no_subscriber:
  "subscribedBlockIds ks (key_prefix ns anchor) = []
   \<Longrightarrow> live_subscribers ks registry ns anchor typeId = []"
  by (simp add: live_subscribers_def)

lemma sends_within_intersection:
  assumes "s \<in> set (handleBotActivity ks registry a appId)"
    and "b_type (msg s) \<noteq> ''mention''"
  shows "blockIds s \<noteq> [] \<and>
         ((b_type (msg s) = ''reply'' \<and> a_type a = Message \<and>
           (\<exists>c. a_conversation_id a = Some c \<and>
              set (blockIds s) =
                lookup_ids ks ''replies'' c \<inter> live_ids registry ''threadSubscription''))
          \<or> ((b_type (msg s) = ''action'' \<or> b_type (msg s) = ''reaction'') \<and>
              (\<exists>r. reply_target a = Some r \<and>
                 set (blockIds s) =
                   lookup_ids ks ''events'' r \<inter> live_ids registry ''sendMessage'')))"
proof (cases "a_type a")
  case Message
  with assms have "s \<in> set (reply_dispatch ks registry a appId)"
    by (auto simp: handleBotActivity_def handleMessageActivity_def dest: mention_dispatch_types)
  from reply_dispatch_cases [OF this] Message show ?thesis
    by (auto simp: set_validBlockIds lookup_ids_def live_ids_def reply_target_def)
next
  case MessageReaction
  with assms have "s \<in> set (handleReactionActivity ks registry a)"
    by (simp add: handleBotActivity_def)
  from reaction_cases [OF this] MessageReaction show ?thesis
    by (auto simp: set_validBlockIds lookup_ids_def live_ids_def reply_target_def)
next
  case ConversationUpdate
  with assms show ?thesis by (simp add: handleBotActivity_def)
next
  case Invoke
  with assms have "s \<in> set (handleInvokeActivity ks registry a)"
    by (simp add: handleBotActivity_def)
  from invoke_cases [OF this] Invoke show ?thesis
    by (auto simp: set_validBlockIds lookup_ids_def live_ids_def reply_target_def)
next
  case (OtherType t)
  with assms show ?thesis by (simp add: handleBotActivity_def)
qed

lemma path_sends_message:
  "path_sends (handleMessageActivity ks registry a botId) = reply_dispatch ks registry a botId"
proof -
  have "filter (\<lambda>s. b_type (msg s) \<noteq> ''mention'') (mention_dispatch registry a) = []"
    by (auto simp: filter_empty_conv dest: mention_dispatch_types)
  moreover have "filter (\<lambda>s. b_type (msg s) \<noteq> ''mention'') (reply_dispatch ks registry a botId)
                   = reply_dispatch ks registry a botId"
    by (auto simp: filter_id_conv dest: reply_dispatch_not_mention)
  ultimately show ?thesis
    by (simp add: path_sends_def handleMessageActivity_def)
qed

lemma action_is_sent:
  assumes "derive_replyToId a = Some r" and "r \<noteq> []" and "\<not> isFromBot a botId"
    and "truthy_val (a_value a)"
  shows "reply_dispatch ks registry a botId
           = (if live_subscribers ks registry ''events'' r ''sendMessage'' = [] then []
              else [\<lparr> blockIds = live_subscribers ks registry ''events'' r ''sendMessage'',
                      msg = submit_body a r \<rparr>])"
  using assms no_subscription_no_subscriber [of ks "''events''" r registry "''sendMessage''"]
  by (auto simp: reply_dispatch_def Let_def live_subscribers_def)

lemma reply_is_sent:
  assumes "derive_replyToId a = Some r" and "r \<noteq> []" and "\<not> isFromBot a botId"
    and "\<not> truthy_val (a_value a)" and "a_conversation_id a = Some c" and "c \<noteq> []"
  shows "reply_dispatch ks registry a botId
           = (if live_subscribers ks registry ''replies'' c ''threadSubscription'' = [] then []
              else [\<lparr> blockIds = live_subscribers ks registry ''replies'' c ''threadSubscription'',
                      msg = reply_body a r c \<rparr>])"
  using assms no_subscription_no_subscriber [of ks "''replies''" c registry "''threadSubscription''"]
  by (auto simp: reply_dispatch_def Let_def live_subscribers_def)

lemma reactions_are_sent:
  assumes "a_replyToId a = Some r" and "r \<noteq> []"
  shows "handleReactionActivity ks registry a
           = (if live_subscribers ks registry ''events'' r ''sendMessage'' = [] then []
              else map (\<lambda>x. \<lparr> blockIds = live_subscribers ks registry ''events'' r ''sendMessage'',
                              msg = reaction_body a r ''add'' x \<rparr>) (a_reactionsAdded a)
                   @ map (\<lambda>x. \<lparr> blockIds = live_subscribers ks registry ''events'' r ''sendMessage'',
                                msg = reaction_body a r ''remove'' x \<rparr>) (a_reactionsRemoved a))"
  using assms no_subscription_no_subscriber [of ks "''events''" r registry "''sendMessage''"]
  by (auto simp: handleReactionActivity_def Let_def live_subscribers_def)

lemma invoke_is_sent:
  assumes "a_replyToId a = Some r" and "r \<noteq> []"
  shows "handleInvokeActivity ks registry a
           = (if live_subscribers ks registry ''events'' r ''sendMessage'' = [] then []
              else [\<lparr> blockIds = live_subscribers ks registry ''events'' r ''sendMessage'',
                      msg = invoke_body a r \<rparr>])"
  using assms no_subscription_no_subscriber [of ks "''events''" r registry "''sendMessage''"]
  by (auto simp: handleInvokeActivity_def Let_def live_subscribers_def)

text \<open>
  C6. The subscribers of a dispatch are, as a set, the ids that the lookup under the key
  prefix finds, intersected with the blocks of the path's type that the registry lists
  now. Every message sent along the reply, action or reaction path goes to a non-empty
  list of blocks that is this intersection. And the message is sent: for a message with
  a reply target that is not from the bot, for a reaction and for an invoke with a reply
  target, the messages other than mentions are none when the intersection is empty and
  otherwise the one action or reply message (for a reaction, one message per change),
  addressed to these subscribers. The prefix and the type are \<open>events|reply target|\<close>
  and \<^verbatim>\<open>sendMessage\<close> for an action or a reaction, \<open>replies|conversation id|\<close> and
  \<^verbatim>\<open>threadSubscription\<close> for a reply.
\<close>

theorem liveness_filter:
  "set (live_subscribers ks registry ns anchor typeId)
     = lookup_ids ks ns anchor \<inter> live_ids registry typeId
   \<and> (\<forall>s \<in> set (handleBotActivity ks registry a appId).
         b_type (msg s) \<noteq> ''mention'' \<longrightarrow>
         blockIds s \<noteq> [] \<and>
         ((b_type (msg s) = ''reply'' \<and> a_type a = Message \<and>
           (\<exists>c. a_conversation_id a = Some c \<and>
              set (blockIds s) =
                lookup_ids ks ''replies'' c \<inter> live_ids registry ''threadSubscription''))
          \<or> ((b_type (msg s) = ''action'' \<or> b_type (msg s) = ''reaction'') \<and>
              (\<exists>r. reply_target a = Some r \<and>
                 set (blockIds s) =
                   lookup_ids ks ''events'' r \<inter> live_ids registry ''sendMessage''))))
   \<and> (a_type a = Message \<and> derive_replyToId a = Some r \<and> r \<noteq> [] \<and> \<not> isFromBot a appId
        \<and> truthy_val (a_value a) \<longrightarrow>
        path_sends (handleBotActivity ks registry a appId)
          = (if lookup_ids ks ''events'' r \<inter> live_ids registry ''sendMessage'' = {} then []
             else [\<lparr> blockIds = live_subscribers ks registry ''events'' r ''sendMessage'',
                     msg = submit_body a r \<rparr>]))
   \<and> (a_type a = Message \<and> derive_replyToId a = Some r \<and> r \<noteq> [] \<and> \<not> isFromBot a appId
        \<and> \<not> truthy_val (a_value a) \<and> a_conversation_id a = Some c \<and> c \<noteq> [] \<longrightarrow>
        path_sends (handleBotActivity ks registry a appId)
          = (if lookup_ids ks ''replies'' c \<inter> live_ids registry ''threadSubscription'' = {}
             then []
             else [\<lparr> blockIds = live_subscribers ks registry ''replies'' c ''threadSubscription'',
                     msg = reply_body a r c \<rparr>]))
   \<and> (a_type a = MessageReaction \<and> a_replyToId a = Some r \<and> r \<noteq> [] \<longrightarrow>
        handleBotActivity ks registry a appId
          = (if lookup_ids ks ''events'' r \<inter> live_ids registry ''sendMessage'' = {} then []
             else map (\<lambda>x. \<lparr> blockIds = live_subscribers ks registry ''events'' r ''sendMessage'',
                             msg = reaction_body a r ''add'' x \<rparr>) (a_reactionsAdded a)
                  @ map (\<lambda>x. \<lparr> blockIds = live_subscribers ks registry ''events'' r ''sendMessage'',
                               msg = reaction_body a r ''remove'' x \<rparr>) (a_reactionsRemoved a)))
   \<and> (a_type a = Invoke \<and> a_replyToId a = Some r \<and> r \<noteq> [] \<longrightarrow>
        handleBotActivity ks registry a appId
          = (if lookup_ids ks ''events'' r \<inter> live_ids registry ''sendMessage'' = {} then []
             else [\<lparr> blockIds = live_subscribers ks registry ''events'' r ''sendMessage'',
                     msg = invoke_body a r \<rparr>]))"
proof (intro conjI ballI impI)
  show "set (live_subscribers ks registry ns anchor typeId)
          = lookup_ids ks ns anchor \<inter> live_ids registry typeId"
    by (rule set_live_subscribers)
next
  fix s
  assume "s \<in> set (handleBotActivity ks registry a appId)" and "b_type (msg s) \<noteq> ''mention''"
  then have w: "blockIds s \<noteq> [] \<and>
         ((b_type (msg s) = ''reply'' \<and> a_type a = Message \<and>
           (\<exists>c. a_conversation_id a = Some c \<and>
              set (blockIds s) =
                lookup_ids ks ''replies'' c \<inter> live_ids registry ''threadSubscription''))
          \<or> ((b_type (msg s) = ''action'' \<or> b_type (msg s) = ''reaction'') \<and>
              (\<exists>r. reply_target a = Some r \<and>
                 set (blockIds s) =
                   lookup_ids ks ''events'' r \<inter> live_ids registry ''sendMessage'')))"
    by (rule sends_within_intersection)
  from w show "blockIds s \<noteq> []" by (rule conjunct1)
  from w show "(b_type (msg s) = ''reply'' \<and> a_type a = Message \<and>
           (\<exists>c. a_conversation_id a = Some c \<and>
              set (blockIds s) =
                lookup_ids ks ''replies'' c \<inter> live_ids registry ''threadSubscription''))
          \<or> ((b_type (msg s) = ''action'' \<or> b_type (msg s) = ''reaction'') \<and>
              (\<exists>r. reply_target a = Some r \<and>
                 set (blockIds s) =
                   lookup_ids ks ''events'' r \<inter> live_ids registry ''sendMessage''))"
    by (rule conjunct2)
next
  assume h: "a_type a = Message \<and> derive_replyToId a = Some r \<and> r \<noteq> [] \<and> \<not> isFromBot a appId
        \<and> truthy_val (a_value a)"
  then have "path_sends (handleBotActivity ks registry a appId) = reply_dispatch ks registry a appId"
    by (simp add: handleBotActivity_def path_sends_message)
  with h show "path_sends (handleBotActivity ks registry a appId)
          = (if lookup_ids ks ''events'' r \<inter> live_ids registry ''sendMessage'' = {} then []
             else [\<lparr> blockIds = live_subscribers ks registry ''events'' r ''sendMessage'',
                     msg = submit_body a r \<rparr>])"
    by (simp add: action_is_sent live_subscribers_empty)
next
  assume h: "a_type a = Message \<and> derive_replyToId a = Some r \<and> r \<noteq> [] \<and> \<not> isFromBot a appId
        \<and> \<not> truthy_val (a_value a) \<and> a_conversation_id a = Some c \<and> c \<noteq> []"
  then have "path_sends (handleBotActivity ks registry a appId) = reply_dispatch ks registry a appId"
    by (simp add: handleBotActivity_def path_sends_message)
  with h show "path_sends (handleBotActivity ks registry a appId)
          = (if lookup_ids ks ''replies'' c \<inter> live_ids registry ''threadSubscription'' = {}
             then []
             else [\<lparr> blockIds = live_subscribers ks registry ''replies'' c ''threadSubscription'',
                     msg = reply_body a r c \<rparr>])"
    by (simp add: reply_is_sent live_subscribers_empty)
next
  assume h: "a_type a = MessageReaction \<and> a_replyToId a = Some r \<and> r \<noteq> []"
  then show "handleBotActivity ks registry a appId
          = (if lookup_ids ks ''events'' r \<inter> live_ids registry ''sendMessage'' = {} then []
             else map (\<lambda>x. \<lparr> blockIds = live_subscribers ks registry ''events'' r ''sendMessage'',
                             msg = reaction_body a r ''add'' x \<rparr>) (a_reactionsAdded a)
                  @ map (\<lambda>x. \<lparr> blockIds = live_subscribers ks registry ''events'' r ''sendMessage'',
                               msg = reaction_body a r ''remove'' x \<rparr>) (a_reactionsRemoved a))"
    by (simp add: handleBotActivity_def reactions_are_sent live_subscribers_empty)
next
  assume h: "a_type a = Invoke \<and> a_replyToId a = Some r \<and> r \<noteq> []"
  then show "handleBotActivity ks registry a appId
          = (if lookup_ids ks ''events'' r \<inter> live_ids registry ''sendMessage'' = {} then []
             else [\<lparr> blockIds = live_subscribers ks registry ''events'' r ''sendMessage'',
                     msg = invoke_body a r \<rparr>])"
    by (simp add: handleBotActivity_def invoke_is_sent live_subscribers_empty)
qed

text \<open>
  The statement run on each path. The blocks \<open>blockA\<close> and \<open>blockB\<close> registered for the
  message \<open>7\<close> and \<open>blockB\<close> was deleted: a reaction to the message is sent to \<open>blockA\<close>
  alone, although the lookup still finds both. A reply in the subscribed thread is sent
  to its subscriber \<open>blockT\<close>, and to nobody once \<open>blockT\<close> is gone from the registry. A
  submitted card value and a card invoke are sent to the block that sent the message.
\<close>

theorem liveness_filter_witness:
  "lookup_ids (appKv two_senders) ''events'' ''7'' = {''blockA'', ''blockB''}
   \<and> live_ids registry_A ''sendMessage'' = {''blockA''}
   \<and> lookup_ids (appKv two_senders) ''events'' ''7'' \<inter> live_ids registry_A ''sendMessage''
       = {''blockA''}
   \<and> handleBotActivity (appKv two_senders) registry_A like_added ''app''
       = [\<lparr> blockIds = [''blockA''], msg = reaction_body like_added ''7'' ''add'' like \<rparr>]
   \<and> path_sends (handleBotActivity (appKv thread_state) registry_thread
         (in_thread Message ''456'') ''app'')
       = [\<lparr> blockIds = [''blockT''],
            msg = reply_body (in_thread Message ''456'') ''123'' ''19:abc;messageid=123'' \<rparr>]
   \<and> path_sends (handleBotActivity (appKv thread_state) registry_A
         (in_thread Message ''456'') ''app'') = []
   \<and> path_sends (handleBotActivity (appKv self_state) registry_thread self_submit ''app'')
       = [\<lparr> blockIds = [''blockA''], msg = submit_body self_submit ''5'' \<rparr>]
   \<and> handleBotActivity (appKv thread_state) registry_thread card_invoke ''app''
       = [\<lparr> blockIds = [''blockA''], msg = invoke_body card_invoke ''123'' \<rparr>]"
proof -
  let ?conv = "''19:abc;messageid=123''"
  let ?m = "in_thread Message ''456''"
  \<comment> \<open>a reaction, one of two subscribers deleted\<close>
  have found: "subscribedBlockIds (appKv two_senders) (key_prefix ''events'' ''7'')
                 = [Some ''blockA'', Some ''blockB'']"
    by code_simp
  have lk: "lookup_ids (appKv two_senders) ''events'' ''7'' = {''blockA'', ''blockB''}"
    unfolding lookup_ids_def found by auto
  have lv: "live_ids registry_A ''sendMessage'' = {''blockA''}"
    by (simp add: live_ids_def existingBlockIds_def blocks_list_def registry_A_def mk_block_def)
  have ls1: "live_subscribers (appKv two_senders) registry_A ''events'' ''7'' ''sendMessage''
               = [''blockA'']"
    by code_simp
  have h1: "a_type like_added = MessageReaction \<and> a_replyToId like_added = Some ''7'' \<and> ''7'' \<noteq> []"
    by (simp add: like_added_def blank_activity_def)
  have c1: "a_reactionsAdded like_added = [like]" "a_reactionsRemoved like_added = []"
    by (simp_all add: like_added_def blank_activity_def)
  note t1 = liveness_filter [where ks = "appKv two_senders" and registry = registry_A
      and a = like_added and appId = "''app''" and r = "''7''" and ns = "''events''"
      and anchor = "''7''" and typeId = "''sendMessage''"]
  from t1 [THEN conjunct1] have i1:
    "lookup_ids (appKv two_senders) ''events'' ''7'' \<inter> live_ids registry_A ''sendMessage''
       = {''blockA''}"
    by (simp add: ls1)
  from t1 [THEN conjunct2, THEN conjunct2, THEN conjunct2, THEN conjunct2, THEN conjunct1,
      THEN mp, OF h1]
  have r1: "handleBotActivity (appKv two_senders) registry_A like_added ''app''
       = [\<lparr> blockIds = [''blockA''], msg = reaction_body like_added ''7'' ''add'' like \<rparr>]"
    by (simp add: i1 ls1 c1)
  \<comment> \<open>a reply in a subscribed thread\<close>
  have h2: "a_type ?m = Message \<and> derive_replyToId ?m = Some ''123'' \<and> ''123'' \<noteq> []
      \<and> \<not> isFromBot ?m ''app'' \<and> \<not> truthy_val (a_value ?m)
      \<and> a_conversation_id ?m = Some ?conv \<and> ?conv \<noteq> []"
  proof -
    have "derive_replyToId ?m = Some ''123''" by code_simp
    moreover have "\<not> isFromBot ?m ''app''" by code_simp
    ultimately show ?thesis
      by (simp add: in_thread_def blank_activity_def truthy_val_def)
  qed
  have ls2: "live_subscribers (appKv thread_state) registry_thread ''replies'' ?conv
               ''threadSubscription'' = [''blockT'']"
    by code_simp
  note t2 = liveness_filter [where ks = "appKv thread_state" and registry = registry_thread
      and a = ?m and appId = "''app''" and r = "''123''" and c = ?conv and ns = "''replies''"
      and anchor = ?conv and typeId = "''threadSubscription''"]
  from t2 [THEN conjunct1] have i2:
    "lookup_ids (appKv thread_state) ''replies'' ?conv
       \<inter> live_ids registry_thread ''threadSubscription'' = {''blockT''}"
    by (simp add: ls2)
  from t2 [THEN conjunct2, THEN conjunct2, THEN conjunct2, THEN conjunct1, THEN mp, OF h2]
  have r2: "path_sends (handleBotActivity (appKv thread_state) registry_thread ?m ''app'')
       = [\<lparr> blockIds = [''blockT''], msg = reply_body ?m ''123'' ?conv \<rparr>]"
    by (simp add: i2 ls2)
  \<comment> \<open>the same reply after the subscriber was deleted\<close>
  have ls3: "live_subscribers (appKv thread_state) registry_A ''replies'' ?conv
               ''threadSubscription'' = []"
    by code_simp
  note t3 = liveness_filter [where ks = "appKv thread_state" and registry = registry_A
      and a = ?m and appId = "''app''" and r = "''123''" and c = ?conv and ns = "''replies''"
      and anchor = ?conv and typeId = "''threadSubscription''"]
  from t3 [THEN conjunct1] have i3:
    "lookup_ids (appKv thread_state) ''replies'' ?conv
       \<inter> live_ids registry_A ''threadSubscription'' = {}"
    by (simp add: ls3)
  from t3 [THEN conjunct2, THEN conjunct2, THEN conjunct2, THEN conjunct1, THEN mp, OF h2]
  have r3: "path_sends (handleBotActivity (appKv thread_state) registry_A ?m ''app'') = []"
    by (simp add: i3)
  \<comment> \<open>a submitted card value\<close>
  have h4: "a_type self_submit = Message \<and> derive_replyToId self_submit = Some ''5''
      \<and> ''5'' \<noteq> [] \<and> \<not> isFromBot self_submit ''app'' \<and> truthy_val (a_value self_submit)"
  proof -
    have "derive_replyToId self_submit = Some ''5''" by code_simp
    moreover have "\<not> isFromBot self_submit ''app''" by code_simp
    ultimately show ?thesis
      by (simp add: self_submit_def self_reply_def blank_activity_def truthy_val_def)
  qed
  have ls4: "live_subscribers (appKv self_state) registry_thread ''events'' ''5'' ''sendMessage''
               = [''blockA'']"
    by code_simp
  note t4 = liveness_filter [where ks = "appKv self_state" and registry = registry_thread
      and a = self_submit and appId = "''app''" and r = "''5''" and ns = "''events''"
      and anchor = "''5''" and typeId = "''sendMessage''"]
  from t4 [THEN conjunct1] have i4:
    "lookup_ids (appKv self_state) ''events'' ''5'' \<inter> live_ids registry_thread ''sendMessage''
       = {''blockA''}"
    by (simp add: ls4)
  from t4 [THEN conjunct2, THEN conjunct2, THEN conjunct1, THEN mp, OF h4]
  have r4: "path_sends (handleBotActivity (appKv self_state) registry_thread self_submit ''app'')
       = [\<lparr> blockIds = [''blockA''], msg = submit_body self_submit ''5'' \<rparr>]"
    by (simp add: i4 ls4)
  \<comment> \<open>a card invoke\<close>
  have h5: "a_type card_invoke = Invoke \<and> a_replyToId card_invoke = Some ''123'' \<and> ''123'' \<noteq> []"
    by (simp add: card_invoke_def blank_activity_def)
  have ls5: "live_subscribers (appKv thread_state) registry_thread ''events'' ''123''
               ''sendMessage'' = [''blockA'']"
    by code_simp
  note t5 = liveness_filter [where ks = "appKv thread_state" and registry = registry_thread
      and a = card_invoke and appId = "''app''" and r = "''123''" and ns = "''events''"
      and anchor = "''123''" and typeId = "''sendMessage''"]
  from t5 [THEN conjunct1] have i5:
    "lookup_ids (appKv thread_state) ''events'' ''123''
       \<inter> live_ids registry_thread ''sendMessage'' = {''blockA''}"
    by (simp add: ls5)
  from t5 [THEN conjunct2, THEN conjunct2, THEN conjunct2, THEN conjunct2, THEN conjunct2,
      THEN mp, OF h5]
  have r5: "handleBotActivity (appKv thread_state) registry_thread card_invoke ''app''
       = [\<lparr> blockIds = [''blockA''], msg = invoke_body card_invoke ''123'' \<rparr>]"
    by (simp add: i5 ls5)
  from lk lv i1 r1 r2 r3 r4 r5 show ?thesis by blast
qed

end
